theory Spec2Isabelle
  imports Complex_Main "HOL-Library.Sublist" "HOL-Library.Word"
begin

section \<open>Python strings\<close>

text \<open>
  A Python \<open>str\<close> is a sequence of Unicode code points, so a string is a list of
  natural numbers and \<open>length\<close> counts what \<open>len\<close> counts. ASCII literals are written
  through \<open>ascii\<close>; other characters appear as their code point.
\<close>

type_synonym pystr = "nat list"

definition ascii :: "string \<Rightarrow> pystr" where
  "ascii cs = map of_char cs"

text \<open>\<open>sub in s\<close> on strings: \<open>sub\<close> occurs as a contiguous slice of \<open>s\<close>.\<close>

fun contains :: "pystr \<Rightarrow> pystr \<Rightarrow> bool" where
  "contains sub [] = (sub = [])"
| "contains sub (c # cs) = (prefix sub (c # cs) \<or> contains sub cs)"

text \<open>
  \<open>s.replace(old, new)\<close>: the occurrences of \<open>old\<close> are replaced from the left, without
  overlap; with an empty \<open>old\<close> Python puts \<open>new\<close> before every character and at the end.
\<close>

function replace :: "pystr \<Rightarrow> pystr \<Rightarrow> pystr \<Rightarrow> pystr" where
  "replace old new s =
     (if old = [] then new @ concat (map (\<lambda>c. c # new) s)
      else if prefix old s then new @ replace old new (drop (length old) s)
      else (case s of [] \<Rightarrow> [] | c # cs \<Rightarrow> c # replace old new cs))"
  by pat_completeness auto
termination
  by (relation "measure (\<lambda>(old, new, s). length s)") (auto simp: prefix_def)

section \<open>The parsed document\<close>

text \<open>
  The extractor works on the tree that the markup parser hands back. A node is a piece
  of text or a tag with its name, its attribute dictionary (an association list read
  with \<open>map_of\<close>) and its children in document order.
\<close>

datatype node = Text pystr | Tag pystr "(pystr \<times> pystr) list" "node list"

text \<open>\<open>get_text()\<close>: every piece of text below the node, concatenated in document order.\<close>

fun get_text :: "node \<Rightarrow> pystr" where
  "get_text (Text s) = s"
| "get_text (Tag name attrs children) = concat (map get_text children)"

text \<open>
  The descendants of a node in document order, each paired with its
  \<open>previous_sibling\<close> (\<open>None\<close> for a first child).
\<close>

fun descendants :: "node \<Rightarrow> (node option \<times> node) list"
  and descendants_from :: "node option \<Rightarrow> node list \<Rightarrow> (node option \<times> node) list" where
  "descendants (Text s) = []"
| "descendants (Tag name attrs children) = descendants_from None children"
| "descendants_from prev [] = []"
| "descendants_from prev (c # cs) = (prev, c) # descendants c @ descendants_from (Some c) cs"

fun is_tag :: "pystr \<Rightarrow> node \<Rightarrow> bool" where
  "is_tag name (Text s) = False"
| "is_tag name (Tag name' attrs children) = (name' = name)"

definition find_all_prev :: "pystr \<Rightarrow> node \<Rightarrow> (node option \<times> node) list" where
  "find_all_prev name n = filter (\<lambda>(prev, d). is_tag name d) (descendants n)"

definition find_all :: "pystr \<Rightarrow> node \<Rightarrow> node list" where
  "find_all name n = map snd (find_all_prev name n)"

definition find_tag :: "pystr \<Rightarrow> node \<Rightarrow> node option" where
  "find_tag name n = (case find_all name n of [] \<Rightarrow> None | d # _ \<Rightarrow> Some d)"

text \<open>\<open>tag.get(key, default)\<close>; on a piece of text there is no attribute to read.\<close>

fun get_attr :: "node \<Rightarrow> pystr \<Rightarrow> pystr \<Rightarrow> pystr" where
  "get_attr (Text s) key dflt = dflt"
| "get_attr (Tag name attrs children) key dflt =
     (case map_of attrs key of None \<Rightarrow> dflt | Some v \<Rightarrow> v)"

section \<open>What the Python library supplies\<close>

text \<open>
  The character tables of the interpreter and the markup rendering of the parser
  library are not part of the repository. The functions below take them as an
  environment, and the theorems hold for every environment.
\<close>

record env =
  upper_cp :: "nat \<Rightarrow> pystr"       \<comment> \<open>upper-case mapping of one code point\<close>
  lower_str :: "pystr \<Rightarrow> pystr"    \<comment> \<open>\<open>str.lower()\<close>\<close>
  isspace :: "nat \<Rightarrow> bool"         \<comment> \<open>white space: \<open>str.strip()\<close> and \<open>\s\<close>\<close>
  isdigit :: "nat \<Rightarrow> bool"         \<comment> \<open>\<open>\d\<close>\<close>
  isword :: "nat \<Rightarrow> bool"          \<comment> \<open>\<open>\w\<close>\<close>
  ieq :: "nat \<Rightarrow> nat \<Rightarrow> bool"       \<comment> \<open>pattern letter against a character under \<open>re.IGNORECASE\<close>\<close>
  decode :: "node \<Rightarrow> pystr"        \<comment> \<open>\<open>str(tag)\<close>: the markup of a tag\<close>

definition upper :: "env \<Rightarrow> pystr \<Rightarrow> pystr" where
  "upper E s = concat (map (upper_cp E) s)"

definition strip :: "env \<Rightarrow> pystr \<Rightarrow> pystr" where
  "strip E s = rev (dropWhile (isspace E) (rev (dropWhile (isspace E) s)))"

section \<open>The tables on the Latin-1 block\<close>

text \<open>
  For running the functions on concrete inputs: the interpreter's tables on the code
  points below 256, which hold the alphabet of the upstream pages, the white space of
  \<open>str.isspace\<close>, and the parser library's default rendering of a tag. Above the
  Latin-1 block a character is its own upper and lower case here and belongs to no class
  but white space.
\<close>

definition latin1_upper :: "nat \<Rightarrow> pystr" where
  "latin1_upper c =
     (if 97 \<le> c \<and> c \<le> 122 then [c - 32]
      else if c = 181 then [924]
      else if c = 223 then [83, 83]
      else if 224 \<le> c \<and> c \<le> 254 \<and> c \<noteq> 247 then [c - 32]
      else if c = 255 then [376]
      else [c])"

definition latin1_lower :: "nat \<Rightarrow> nat" where
  "latin1_lower c =
     (if 65 \<le> c \<and> c \<le> 90 then c + 32
      else if 192 \<le> c \<and> c \<le> 222 \<and> c \<noteq> 215 then c + 32
      else c)"

definition py_isspace :: "nat \<Rightarrow> bool" where
  "py_isspace c =
     ((9 \<le> c \<and> c \<le> 13) \<or> (28 \<le> c \<and> c \<le> 32) \<or> c = 133 \<or> c = 160 \<or> c = 5760
      \<or> (8192 \<le> c \<and> c \<le> 8202) \<or> c = 8232 \<or> c = 8233 \<or> c = 8239 \<or> c = 8287
      \<or> c = 12288)"

definition latin1_isdigit :: "nat \<Rightarrow> bool" where
  "latin1_isdigit c = (48 \<le> c \<and> c \<le> 57)"

definition latin1_isword :: "nat \<Rightarrow> bool" where
  "latin1_isword c =
     (latin1_isdigit c \<or> (65 \<le> c \<and> c \<le> 90) \<or> c = 95 \<or> (97 \<le> c \<and> c \<le> 122)
      \<or> c = 170 \<or> c = 178 \<or> c = 179 \<or> c = 181 \<or> c = 185 \<or> c = 186
      \<or> c = 188 \<or> c = 189 \<or> c = 190
      \<or> (192 \<le> c \<and> c \<le> 255 \<and> c \<noteq> 215 \<and> c \<noteq> 247))"

definition latin1_ieq :: "nat \<Rightarrow> nat \<Rightarrow> bool" where
  "latin1_ieq p c =
     (c = p \<or> latin1_lower c = p \<or> (p = 107 \<and> c = 8490) \<or> (p = 115 \<and> c = 383)
      \<or> (p = 105 \<and> (c = 304 \<or> c = 305)))"

definition escape :: "pystr \<Rightarrow> pystr" where
  "escape s = concat (map (\<lambda>c. if c = 38 then ascii ''&amp;''
                                 else if c = 60 then ascii ''&lt;''
                                 else if c = 62 then ascii ''&gt;'' else [c]) s)"

definition quoted :: "pystr \<Rightarrow> pystr" where
  "quoted v =
     (if 34 \<in> set v then
        (if 39 \<in> set v then [34] @ replace [34] (ascii ''&quot;'') v @ [34]
         else [39] @ v @ [39])
      else [34] @ v @ [34])"

definition void_tags :: "pystr list" where
  "void_tags = map ascii [''area'', ''base'', ''br'', ''col'', ''embed'', ''hr'', ''img'',
     ''input'', ''keygen'', ''link'', ''menuitem'', ''meta'', ''param'', ''source'',
     ''track'', ''wbr'', ''basefont'', ''bgsound'', ''command'', ''frame'', ''image'',
     ''isindex'', ''nextid'', ''spacer'']"

fun markup :: "node \<Rightarrow> pystr" where
  "markup (Text s) = escape s"
| "markup (Tag name attrs children) =
     (let open_tag = [60] @ name
            @ concat (map (\<lambda>(k, v). [32] @ k @ [61] @ quoted (escape v)) attrs)
      in if children = [] \<and> name \<in> set void_tags then open_tag @ ascii ''/>''
         else open_tag @ [62] @ concat (map markup children) @ ascii ''</'' @ name @ [62])"

definition latin1 :: env where
  "latin1 = \<lparr>upper_cp = latin1_upper, lower_str = map latin1_lower, isspace = py_isspace,
             isdigit = latin1_isdigit, isword = latin1_isword, ieq = latin1_ieq,
             decode = markup\<rparr>"

section \<open>The geocoding resolver\<close>

text \<open>
  A Python float is kept as the 64 bits of its IEEE-754 double: the resolver stores and
  returns coordinates and computes nothing with them.
\<close>

type_synonym pyfloat = "64 word"

record Coordenadas =
  latitud :: pyfloat
  longitud :: pyfloat
  precision :: pystr
  fuente :: pystr

text \<open>
  What one call of the service does to \<open>geocodificar_nominatim\<close>: the request or the
  decoding of its payload raises; the payload is falsy (an empty result list); or its
  first entry carries a latitude and a longitude.
\<close>

datatype response = Raised | Falsy | First pyfloat pyfloat

text \<open>
  The service answers a query in the light of every request sent before it, so that it
  may answer one query differently at different times.
\<close>

type_synonym service = "pystr list \<Rightarrow> pystr \<Rightarrow> response"

text \<open>
  The module state: \<open>_geocode_cache\<close>, a dictionary whose values are a coordinate pair
  or \<open>None\<close>, and \<open>_last_request_time\<close>. With it go the wall clock, in seconds, and the
  number of steps that have taken time, and what the module has done so far: how often
  \<open>_rate_limit\<close> ran, the value it gave \<open>_last_request_time\<close> at each run, the requests
  sent, the queries handed to \<open>geocodificar_nominatim\<close>, and the queries whose error was
  printed. Times are real numbers: the rounding of the float subtractions is left out.
\<close>

record geo_state =
  geocode_cache :: "pystr \<rightharpoonup> (pyfloat \<times> pyfloat) option"
  last_request_time :: real
  now :: real
  steps :: nat
  rate_limit_calls :: nat
  request_times :: "real list"
  requested :: "pystr list"
  attempted :: "pystr list"
  printed :: "pystr list"

text \<open>
  How long things take is not the module's to decide: \<open>lag k\<close> is the time that the
  \<open>k\<close>-th step takes beyond what it asks for. A step that asks for \<open>d\<close> seconds moves
  the clock by \<open>d + lag k\<close>; \<open>time.sleep(d)\<close> asks for \<open>d\<close>, every other step for
  nothing.
\<close>

definition pass :: "(nat \<Rightarrow> real) \<Rightarrow> real \<Rightarrow> geo_state \<Rightarrow> geo_state" where
  "pass lag d st = st\<lparr>now := now st + d + lag (steps st), steps := Suc (steps st)\<rparr>"

text \<open>
  \<open>_rate_limit\<close>: read the clock, sleep for what is missing to one second since
  \<open>_last_request_time\<close>, read the clock again and store that reading.
\<close>

definition rate_limit :: "(nat \<Rightarrow> real) \<Rightarrow> geo_state \<Rightarrow> geo_state" where
  "rate_limit lag st =
     (let now0 = now st;
          st1 = pass lag 0 st;
          elapsed = now0 - last_request_time st1;
          st2 = (if elapsed < 1 then pass lag (1 - elapsed) st1 else st1);
          now1 = now st2;
          st3 = pass lag 0 st2
      in st3\<lparr>last_request_time := now1,
              rate_limit_calls := Suc (rate_limit_calls st3),
              request_times := request_times st3 @ [now1]\<rparr>)"

text \<open>
  Time passes before the cache is looked at (the caller's own work and the lookup) and
  while the request is under way.
\<close>

definition geocodificar_nominatim ::
  "service \<Rightarrow> (nat \<Rightarrow> real) \<Rightarrow> pystr \<Rightarrow> geo_state \<Rightarrow>
   (pyfloat \<times> pyfloat) option \<times> geo_state" where
  "geocodificar_nominatim srv lag query st0 =
     (let st = (pass lag 0 st0)\<lparr>attempted := attempted st0 @ [query]\<rparr> in
      case geocode_cache st query of
        Some cached \<Rightarrow> (cached, st)
      | None \<Rightarrow>
         (let st1 = rate_limit lag st;
              resp = srv (requested st1) query;
              st2 = (pass lag 0 st1)\<lparr>requested := requested st1 @ [query]\<rparr>
          in case resp of
               First lat lon \<Rightarrow>
                 (Some (lat, lon),
                  st2\<lparr>geocode_cache := (geocode_cache st2)(query \<mapsto> Some (lat, lon))\<rparr>)
             | Falsy \<Rightarrow> (None, st2\<lparr>geocode_cache := (geocode_cache st2)(query \<mapsto> None)\<rparr>)
             | Raised \<Rightarrow> (None, st2\<lparr>printed := printed st2 @ [query]\<rparr>)))"

text \<open>
  One block of the cascade: when its fields are there, ask for the query and return the
  coordinates with the block's precision and source; otherwise, and when the query
  finds nothing, go on with the blocks that follow.
\<close>

definition estrategia ::
  "service \<Rightarrow> (nat \<Rightarrow> real) \<Rightarrow> bool \<Rightarrow> pystr \<Rightarrow> pystr \<Rightarrow> pystr \<Rightarrow>
   (geo_state \<Rightarrow> Coordenadas option \<times> geo_state) \<Rightarrow>
   geo_state \<Rightarrow> Coordenadas option \<times> geo_state" where
  "estrategia srv lag cond query prec src rest st =
     (if cond then
        (case geocodificar_nominatim srv lag query st of
           (Some (lat, lon), st') \<Rightarrow>
             (Some \<lparr>latitud = lat, longitud = lon, precision = prec, fuente = src @ query\<rparr>, st')
         | (None, st') \<Rightarrow> rest st')
      else rest st)"

definition Espana :: pystr where
  "Espana = ascii ''Espa'' @ [241] @ ascii ''a''"

definition pk_normalizado :: "pystr \<Rightarrow> pystr" where
  "pk_normalizado pk = (if pk \<noteq> [] then map (\<lambda>c. if c = 44 then 46 else c) pk else [])"

definition poblacion_limpia :: "env \<Rightarrow> pystr \<Rightarrow> pystr" where
  "poblacion_limpia E poblacion =
     (if poblacion \<noteq> [] then strip E (takeWhile (\<lambda>c. c \<noteq> 40) poblacion) else [])"

text \<open>The seven query strings, in the order of the cascade.\<close>

definition query1 :: "pystr \<Rightarrow> pystr \<Rightarrow> pystr \<Rightarrow> pystr \<Rightarrow> pystr" where
  "query1 carretera pkn pob provincia =
     carretera @ ascii '' km '' @ pkn @ ascii '', '' @ pob @ ascii '', '' @ provincia
       @ ascii '', '' @ Espana"

definition query2 :: "pystr \<Rightarrow> pystr \<Rightarrow> pystr \<Rightarrow> pystr" where
  "query2 carretera pob provincia =
     pob @ ascii '', '' @ carretera @ ascii '', '' @ provincia @ ascii '', '' @ Espana"

definition query3 :: "pystr \<Rightarrow> pystr \<Rightarrow> pystr \<Rightarrow> pystr" where
  "query3 carretera pkn provincia =
     carretera @ ascii '' kil'' @ [243] @ ascii ''metro '' @ pkn @ ascii '', '' @ provincia
       @ ascii '', '' @ Espana"

definition query4 :: "pystr \<Rightarrow> pystr \<Rightarrow> pystr" where
  "query4 carretera pkn = carretera @ ascii '' km '' @ pkn @ ascii '', '' @ Espana"

definition query5 :: "pystr \<Rightarrow> pystr \<Rightarrow> pystr" where
  "query5 pob provincia = pob @ ascii '', '' @ provincia @ ascii '', '' @ Espana"

definition query6 :: "pystr \<Rightarrow> pystr \<Rightarrow> pystr" where
  "query6 carretera provincia =
     ascii ''carretera '' @ carretera @ ascii '', '' @ provincia @ ascii '', '' @ Espana"

definition query7 :: "pystr \<Rightarrow> pystr" where
  "query7 provincia = provincia @ ascii '', '' @ Espana"

definition src_nominatim :: pystr where
  "src_nominatim = ascii ''Nominatim: ''"

definition src_poblacion :: pystr where
  "src_poblacion = ascii ''Nominatim (poblaci'' @ [243] @ ascii ''n): ''"

definition src_provincia :: pystr where
  "src_provincia = ascii ''Nominatim (provincia): ''"

definition geocodificar_baliza ::
  "env \<Rightarrow> service \<Rightarrow> (nat \<Rightarrow> real) \<Rightarrow> pystr \<Rightarrow> pystr \<Rightarrow> pystr \<Rightarrow> pystr \<Rightarrow> pystr \<Rightarrow>
   geo_state \<Rightarrow> Coordenadas option \<times> geo_state" where
  "geocodificar_baliza E srv lag carretera pk provincia poblacion comunidad =
     (let pkn = pk_normalizado pk;
          pob = poblacion_limpia E poblacion
      in
      estrategia srv lag (carretera \<noteq> [] \<and> pkn \<noteq> [] \<and> pob \<noteq> [])
        (query1 carretera pkn pob provincia) (ascii ''muy_alta'') src_nominatim
     (estrategia srv lag (pob \<noteq> [] \<and> carretera \<noteq> [])
        (query2 carretera pob provincia) (ascii ''alta'') src_nominatim
     (estrategia srv lag (carretera \<noteq> [] \<and> pkn \<noteq> [])
        (query3 carretera pkn provincia) (ascii ''alta'') src_nominatim
     (estrategia srv lag (carretera \<noteq> [] \<and> pkn \<noteq> [])
        (query4 carretera pkn) (ascii ''media'') src_nominatim
     (estrategia srv lag (pob \<noteq> [])
        (query5 pob provincia) (ascii ''media'') src_poblacion
     (estrategia srv lag (carretera \<noteq> [])
        (query6 carretera provincia) (ascii ''baja'') src_nominatim
     (estrategia srv lag True
        (query7 provincia) (ascii ''estimada'') src_provincia
     (\<lambda>st. (None, st)))))))))"

text \<open>
  The state of a freshly imported module at some time of day, three services for the
  examples, and a world in which no step takes longer than it asks for.
\<close>

definition initial_state :: geo_state where
  "initial_state = \<lparr>geocode_cache = Map.empty, last_request_time = 0, now = 1700000000,
                    steps = 0, rate_limit_calls = 0, request_times = [], requested = [],
                    attempted = [], printed = []\<rparr>"

definition instant :: "nat \<Rightarrow> real" where
  "instant k = 0"

definition no_results :: service where
  "no_results history query = Falsy"

definition unreachable :: service where
  "unreachable history query = Raised"


definition always_found :: service where
  "always_found history query = First 1 2"

text \<open>The module's own test call: \<open>geocodificar_baliza("A-1", "23", "MADRID", "Alcobendas")\<close>.\<close>

definition test_call :: "service \<Rightarrow> geo_state \<Rightarrow> Coordenadas option \<times> geo_state" where
  "test_call srv =
     geocodificar_baliza latin1 srv instant (ascii ''A-1'') (ascii ''23'') (ascii ''MADRID'')
       (ascii ''Alcobendas'') []"





subsection \<open>Properties of a cascade\<close>

text \<open>
  A cascade is what remains to run from some block on. \<open>grows\<close>: it only adds to the
  queries, the cache and the printed errors. \<open>replays\<close>: once it has run without
  printing an error, it runs again from any later cache with the same result and without
  a request. \<open>sourced\<close>: the result carries the coordinates cached for a query, with the
  precision and the source of that query's block.
\<close>

type_synonym cascade = "geo_state \<Rightarrow> Coordenadas option \<times> geo_state"

definition grows :: "cascade \<Rightarrow> bool" where
  "grows f = (\<forall>st. prefix (attempted st) (attempted (snd (f st))) \<and>
                   geocode_cache st \<subseteq>\<^sub>m geocode_cache (snd (f st)) \<and>
                   prefix (printed st) (printed (snd (f st))))"

definition replays :: "cascade \<Rightarrow> bool" where
  "replays f = (\<forall>st s2. printed (snd (f st)) = printed st \<longrightarrow>
                  geocode_cache (snd (f st)) \<subseteq>\<^sub>m geocode_cache s2 \<longrightarrow>
                  fst (f s2) = fst (f st) \<and>
                  requested (snd (f s2)) = requested s2 \<and>
                  rate_limit_calls (snd (f s2)) = rate_limit_calls s2 \<and>
                  geocode_cache (snd (f s2)) = geocode_cache s2 \<and>
                  printed (snd (f s2)) = printed s2)"

definition sourced :: "geo_state \<Rightarrow> Coordenadas \<Rightarrow> pystr \<times> pystr \<times> pystr \<Rightarrow> bool" where
  "sourced st r lv = (case lv of (q, prec, src) \<Rightarrow>
     geocode_cache st q = Some (Some (latitud r, longitud r)) \<and>
     precision r = prec \<and> fuente r = src @ q)"

definition from_levels :: "cascade \<Rightarrow> (pystr \<times> pystr \<times> pystr) list \<Rightarrow> bool" where
  "from_levels f lvs = (\<forall>st r st'. f st = (Some r, st') \<longrightarrow> (\<exists>lv \<in> set lvs. sourced st' r lv))"

text \<open>
  The seven blocks of \<open>geocodificar_baliza\<close> as data: the query, the precision and the
  source of each, for the normalized marker \<open>pkn\<close> and the cleaned locality \<open>pob\<close>.
\<close>

definition niveles :: "pystr \<Rightarrow> pystr \<Rightarrow> pystr \<Rightarrow> pystr \<Rightarrow> (pystr \<times> pystr \<times> pystr) list" where
  "niveles carretera pkn provincia pob =
     [(query1 carretera pkn pob provincia, ascii ''muy_alta'', src_nominatim),
      (query2 carretera pob provincia, ascii ''alta'', src_nominatim),
      (query3 carretera pkn provincia, ascii ''alta'', src_nominatim),
      (query4 carretera pkn, ascii ''media'', src_nominatim),
      (query5 pob provincia, ascii ''media'', src_poblacion),
      (query6 carretera provincia, ascii ''baja'', src_nominatim),
      (query7 provincia, ascii ''estimada'', src_provincia)]"

text \<open>\<open>at_most n\<close>: the cascade sends no more than \<open>n\<close> requests.\<close>

definition at_most :: "nat \<Rightarrow> cascade \<Rightarrow> bool" where
  "at_most n f = (\<forall>st. length (requested (snd (f st))) \<le> length (requested st) + n)"

text \<open>
  Where cached coordinates come from: the pair \<open>p\<close> cached for the query \<open>q\<close> was in the
  cache of the state \<open>st0\<close> already, or the service has answered a request for \<open>q\<close>,
  sent since, with \<open>p\<close>.
\<close>

definition came_from :: "service \<Rightarrow> geo_state \<Rightarrow> geo_state \<Rightarrow> pystr \<Rightarrow> pyfloat \<times> pyfloat \<Rightarrow> bool" where
  "came_from srv st0 st q p =
     (geocode_cache st0 q = Some (Some p)
      \<or> (\<exists>h \<in> set (prefixes (requested st)).
            length (requested st0) \<le> length h \<and> srv h q = First (fst p) (snd p)))"

definition provenance :: "service \<Rightarrow> geo_state \<Rightarrow> geo_state \<Rightarrow> bool" where
  "provenance srv st0 st =
     (prefix (requested st0) (requested st)
      \<and> (\<forall>q p. geocode_cache st q = Some (Some p) \<longrightarrow> came_from srv st0 st q p))"

subsection \<open>The throttle\<close>





section \<open>Regular expressions\<close>

text \<open>
  The patterns of the extractor are sequences of four kinds of item: one character of a
  class, a greedy repetition of a class (\<open>*\<close> or \<open>+\<close>), the one capturing group of a
  pattern, which is always such a \<open>+\<close> repetition, and \<open>$\<close>. Matching is the
  backtracking search of \<open>re\<close>: a repetition first takes all it can and gives characters
  back one at a time while the rest of the pattern does not match.
\<close>

datatype atom =
    One "nat \<Rightarrow> bool"
  | Star "nat \<Rightarrow> bool"
  | Plus "nat \<Rightarrow> bool"
  | Group "nat \<Rightarrow> bool"
  | Eos

text \<open>The ways to cut a run of class \<open>p\<close> off the front of \<open>s\<close>, shortest run first.\<close>

fun runs :: "(nat \<Rightarrow> bool) \<Rightarrow> pystr \<Rightarrow> (pystr \<times> pystr) list" where
  "runs p [] = [([], [])]"
| "runs p (c # cs) = ([], c # cs) # (if p c then map (\<lambda>(a, r). (c # a, r)) (runs p cs) else [])"

fun first_some :: "'a option list \<Rightarrow> 'a option" where
  "first_some [] = None"
| "first_some (None # xs) = first_some xs"
| "first_some (Some x # xs) = Some x"

text \<open>
  A match of the pattern at the start of \<open>s\<close>: the text matched and the text of the
  group. \<open>$\<close> holds at the end of the string and before a line feed that ends it.
\<close>

fun match_here :: "atom list \<Rightarrow> pystr \<Rightarrow> (pystr \<times> pystr) option" where
  "match_here [] s = Some ([], [])"
| "match_here (One p # rest) s =
     (case s of [] \<Rightarrow> None
      | c # cs \<Rightarrow> if p c then map_option (\<lambda>(m, g). (c # m, g)) (match_here rest cs) else None)"
| "match_here (Star p # rest) s =
     first_some (map (\<lambda>(a, r). map_option (\<lambda>(m, g). (a @ m, g)) (match_here rest r))
                     (rev (runs p s)))"
| "match_here (Plus p # rest) s =
     first_some (map (\<lambda>(a, r). map_option (\<lambda>(m, g). (a @ m, g)) (match_here rest r))
                     (filter (\<lambda>(a, r). a \<noteq> []) (rev (runs p s))))"
| "match_here (Group p # rest) s =
     first_some (map (\<lambda>(a, r). map_option (\<lambda>(m, g). (a @ m, a)) (match_here rest r))
                     (filter (\<lambda>(a, r). a \<noteq> []) (rev (runs p s))))"
| "match_here (Eos # rest) s = (if s = [] \<or> s = [10] then match_here rest s else None)"

text \<open>\<open>re.search\<close>: the match at the leftmost position that has one.\<close>

fun re_search :: "atom list \<Rightarrow> pystr \<Rightarrow> (pystr \<times> pystr) option" where
  "re_search pat [] = match_here pat []"
| "re_search pat (c # cs) =
     (case match_here pat (c # cs) of Some r \<Rightarrow> Some r | None \<Rightarrow> re_search pat cs)"

definition lit :: "pystr \<Rightarrow> atom list" where
  "lit s = map (\<lambda>c. One (\<lambda>x. x = c)) s"

definition ilit :: "env \<Rightarrow> pystr \<Rightarrow> atom list" where
  "ilit E s = map (\<lambda>c. One (ieq E c)) s"

text \<open>\<open>re.sub(r'\s+', ' ', s)\<close>: every run of white space becomes one space.\<close>

function sub_spaces :: "env \<Rightarrow> pystr \<Rightarrow> pystr" where
  "sub_spaces E [] = []"
| "sub_spaces E (c # cs) =
     (if isspace E c then 32 # sub_spaces E (dropWhile (isspace E) cs)
      else c # sub_spaces E cs)"
  by pat_completeness auto
termination
  by (relation "measure (\<lambda>(E, s). length s)") (auto simp: length_dropWhile_le less_Suc_eq_le)

section \<open>The record extractor\<close>

definition PROVINCIAS_COMUNIDADES :: "(pystr \<times> pystr) list" where
  "PROVINCIAS_COMUNIDADES =
    [(ascii ''ALMER'' @ [205] @ ascii ''A'', ascii ''ANDALUC'' @ [205] @ ascii ''A''),
     (ascii ''C'' @ [193] @ ascii ''DIZ'', ascii ''ANDALUC'' @ [205] @ ascii ''A''),
     (ascii ''C'' @ [211] @ ascii ''RDOBA'', ascii ''ANDALUC'' @ [205] @ ascii ''A''),
     (ascii ''GRANADA'', ascii ''ANDALUC'' @ [205] @ ascii ''A''),
     (ascii ''HUELVA'', ascii ''ANDALUC'' @ [205] @ ascii ''A''),
     (ascii ''JA'' @ [201] @ ascii ''N'', ascii ''ANDALUC'' @ [205] @ ascii ''A''),
     (ascii ''M'' @ [193] @ ascii ''LAGA'', ascii ''ANDALUC'' @ [205] @ ascii ''A''),
     (ascii ''SEVILLA'', ascii ''ANDALUC'' @ [205] @ ascii ''A''),
     (ascii ''HUESCA'', ascii ''ARAG'' @ [211] @ ascii ''N''),
     (ascii ''TERUEL'', ascii ''ARAG'' @ [211] @ ascii ''N''),
     (ascii ''ZARAGOZA'', ascii ''ARAG'' @ [211] @ ascii ''N''),
     (ascii ''ASTURIAS'', ascii ''ASTURIAS''),
     (ascii ''BALEARS, ILLES'', ascii ''ILLES BALEARS''),
     (ascii ''BALEARES'', ascii ''ILLES BALEARS''),
     (ascii ''LAS PALMAS'', ascii ''CANARIAS''),
     (ascii ''SANTA CRUZ DE TENERIFE'', ascii ''CANARIAS''),
     (ascii ''PALMAS, LAS'', ascii ''CANARIAS''),
     (ascii ''S.C.TENERIFE'', ascii ''CANARIAS''),
     (ascii ''CANTABRIA'', ascii ''CANTABRIA''),
     (ascii ''ALBACETE'', ascii ''CASTILLA-LA MANCHA''),
     (ascii ''CIUDAD REAL'', ascii ''CASTILLA-LA MANCHA''),
     (ascii ''CUENCA'', ascii ''CASTILLA-LA MANCHA''),
     (ascii ''GUADALAJARA'', ascii ''CASTILLA-LA MANCHA''),
     (ascii ''TOLEDO'', ascii ''CASTILLA-LA MANCHA''),
     ([193] @ ascii ''VILA'', ascii ''CASTILLA Y LE'' @ [211] @ ascii ''N''),
     (ascii ''BURGOS'', ascii ''CASTILLA Y LE'' @ [211] @ ascii ''N''),
     (ascii ''LE'' @ [211] @ ascii ''N'', ascii ''CASTILLA Y LE'' @ [211] @ ascii ''N''),
     (ascii ''PALENCIA'', ascii ''CASTILLA Y LE'' @ [211] @ ascii ''N''),
     (ascii ''SALAMANCA'', ascii ''CASTILLA Y LE'' @ [211] @ ascii ''N''),
     (ascii ''SEGOVIA'', ascii ''CASTILLA Y LE'' @ [211] @ ascii ''N''),
     (ascii ''SORIA'', ascii ''CASTILLA Y LE'' @ [211] @ ascii ''N''),
     (ascii ''VALLADOLID'', ascii ''CASTILLA Y LE'' @ [211] @ ascii ''N''),
     (ascii ''ZAMORA'', ascii ''CASTILLA Y LE'' @ [211] @ ascii ''N''),
     (ascii ''BARCELONA'', ascii ''CATALU'' @ [209] @ ascii ''A''),
     (ascii ''GIRONA'', ascii ''CATALU'' @ [209] @ ascii ''A''),
     (ascii ''LLEIDA'', ascii ''CATALU'' @ [209] @ ascii ''A''),
     (ascii ''TARRAGONA'', ascii ''CATALU'' @ [209] @ ascii ''A''),
     (ascii ''ALICANTE'', ascii ''COMUNIDAD VALENCIANA''),
     (ascii ''ALACANT'', ascii ''COMUNIDAD VALENCIANA''),
     (ascii ''CASTELL'' @ [211] @ ascii ''N'', ascii ''COMUNIDAD VALENCIANA''),
     (ascii ''CASTELL'' @ [211], ascii ''COMUNIDAD VALENCIANA''),
     (ascii ''VALENCIA'', ascii ''COMUNIDAD VALENCIANA''),
     (ascii ''VAL'' @ [200] @ ascii ''NCIA'', ascii ''COMUNIDAD VALENCIANA''),
     (ascii ''BADAJOZ'', ascii ''EXTREMADURA''),
     (ascii ''C'' @ [193] @ ascii ''CERES'', ascii ''EXTREMADURA''),
     (ascii ''CORU'' @ [209] @ ascii ''A, A'', ascii ''GALICIA''),
     (ascii ''A CORU'' @ [209] @ ascii ''A'', ascii ''GALICIA''),
     (ascii ''LA CORU'' @ [209] @ ascii ''A'', ascii ''GALICIA''),
     (ascii ''LUGO'', ascii ''GALICIA''),
     (ascii ''OURENSE'', ascii ''GALICIA''),
     (ascii ''PONTEVEDRA'', ascii ''GALICIA''),
     (ascii ''MADRID'', ascii ''COMUNIDAD DE MADRID''),
     (ascii ''MURCIA'', ascii ''REGI'' @ [211] @ ascii ''N DE MURCIA''),
     (ascii ''NAVARRA'', ascii ''NAVARRA''),
     ([193] @ ascii ''LAVA'', ascii ''PA'' @ [205] @ ascii ''S VASCO''),
     (ascii ''ARABA'', ascii ''PA'' @ [205] @ ascii ''S VASCO''),
     (ascii ''BIZKAIA'', ascii ''PA'' @ [205] @ ascii ''S VASCO''),
     (ascii ''VIZCAYA'', ascii ''PA'' @ [205] @ ascii ''S VASCO''),
     (ascii ''GIPUZKOA'', ascii ''PA'' @ [205] @ ascii ''S VASCO''),
     (ascii ''GUIP'' @ [218] @ ascii ''ZCOA'', ascii ''PA'' @ [205] @ ascii ''S VASCO''),
     (ascii ''LA RIOJA'', ascii ''LA RIOJA''),
     (ascii ''RIOJA, LA'', ascii ''LA RIOJA''),
     (ascii ''CEUTA'', ascii ''CEUTA''),
     (ascii ''MELILLA'', ascii ''MELILLA'')]"

definition DESCONOCIDA :: pystr where
  "DESCONOCIDA = ascii ''DESCONOCIDA''"

definition get_comunidad :: "env \<Rightarrow> pystr \<Rightarrow> pystr" where
  "get_comunidad E provincia =
     (let provincia_upper = strip E (upper E provincia)
      in case map_of PROVINCIAS_COMUNIDADES provincia_upper of
           Some comunidad \<Rightarrow> comunidad
         | None \<Rightarrow> DESCONOCIDA)"

record Incidencia =
  id_dgt :: pystr
  tipo :: pystr
  fecha_inicio :: pystr
  hora_inicio :: pystr
  fecha_fin :: "pystr option"
  hora_fin :: "pystr option"
  nivel :: pystr
  comunidad :: pystr
  provincia :: pystr
  poblacion :: pystr
  carretera :: pystr
  pk :: pystr
  sentido :: pystr
  descripcion :: pystr
  activa :: bool
  latitud_geo :: "pyfloat option"
  longitud_geo :: "pyfloat option"
  precision_geo :: "pystr option"

datatype exn = IndexError | ParserRejectedMarkup

definition OBSTACULO_FIJO :: pystr where
  "OBSTACULO_FIJO = ascii ''OBST'' @ [193] @ ascii ''CULO FIJO''"

definition OBSTACULO_FIJO_POR_ACCIDENTE :: pystr where
  "OBSTACULO_FIJO_POR_ACCIDENTE = ascii ''OBST'' @ [193] @ ascii ''CULO FIJO POR ACCIDENTE''"

definition ACCIDENTE :: pystr where
  "ACCIDENTE = ascii ''ACCIDENTE''"

text \<open>The patterns, in the order in which the source uses them.\<close>

definition pat_inciCodigo :: "env \<Rightarrow> atom list" where
  "pat_inciCodigo E = lit (ascii ''inciCodigo='') @ [Group (isdigit E)]"

definition pat_alt :: "env \<Rightarrow> atom list" where
  "pat_alt E = lit (ascii ''/'') @ [Group (isdigit E), Eos]"

definition pat_fecha :: "env \<Rightarrow> atom list" where
  "pat_fecha E =
     [One (isdigit E), One (isdigit E)] @ lit (ascii ''/'')
     @ [One (isdigit E), One (isdigit E)] @ lit (ascii ''/'')
     @ [One (isdigit E), One (isdigit E), One (isdigit E), One (isdigit E)]"

definition pat_nivel :: "env \<Rightarrow> atom list" where
  "pat_nivel E = lit (ascii ''nivel_'') @ [Group (isword E)] @ lit (ascii ''.gif'')"

definition pat_km :: "env \<Rightarrow> atom list" where
  "pat_km E =
     ilit E (ascii ''km'')
     @ [Star (isspace E), Group (\<lambda>c. isdigit E c \<or> c = 46 \<or> c = 44)]"

definition pat_sentido :: "env \<Rightarrow> atom list" where
  "pat_sentido E = ilit E (ascii ''sentido'') @ [Plus (isspace E), Group (isword E)]"

text \<open>The text of a nested tag, stripped, or the default when the cell has no such tag.\<close>

definition tag_text :: "env \<Rightarrow> pystr \<Rightarrow> node \<Rightarrow> pystr \<Rightarrow> pystr" where
  "tag_text E name cell dflt =
     (case find_tag name cell of None \<Rightarrow> dflt | Some t \<Rightarrow> strip E (get_text t))"

text \<open>
  \<open>extract_id\<close>: the first link whose \<open>onclick\<close> names an \<open>inciCodigo\<close>, then the first
  image whose \<open>alt\<close> ends in a slash and digits, then the empty string.
\<close>

fun first_group :: "atom list \<Rightarrow> pystr list \<Rightarrow> pystr option" where
  "first_group pat [] = None"
| "first_group pat (t # ts) =
     (case re_search pat t of Some (m, g) \<Rightarrow> Some g | None \<Rightarrow> first_group pat ts)"

definition extract_id :: "env \<Rightarrow> node \<Rightarrow> pystr" where
  "extract_id E row =
     (case first_group (pat_inciCodigo E)
             (map (\<lambda>link. get_attr link (ascii ''onclick'') []) (find_all (ascii ''a'') row)) of
        Some g \<Rightarrow> g
      | None \<Rightarrow>
         (case first_group (pat_alt E)
                 (map (\<lambda>img. get_attr img (ascii ''alt'') []) (find_all (ascii ''img'') row)) of
            Some g \<Rightarrow> g
          | None \<Rightarrow> []))"

text \<open>
  The end cell: the hour is the text of the first \<open>span\<close> when that text is not blank,
  and only then is a date looked for in the text of the whole cell.
\<close>

definition parse_fin :: "env \<Rightarrow> node \<Rightarrow> pystr option \<times> pystr option" where
  "parse_fin E cell_fin =
     (case find_tag (ascii ''span'') cell_fin of
        None \<Rightarrow> (None, None)
      | Some span_fin \<Rightarrow>
          if strip E (get_text span_fin) \<noteq> [] then
            (Some (strip E (get_text span_fin)),
             map_option fst (re_search (pat_fecha E) (get_text cell_fin)))
          else (None, None))"

definition parse_nivel :: "env \<Rightarrow> node \<Rightarrow> pystr" where
  "parse_nivel E cell_nivel =
     (case find_tag (ascii ''img'') cell_nivel of
        None \<Rightarrow> ascii ''desconocido''
      | Some img \<Rightarrow>
          if get_attr img (ascii ''src'') [] \<noteq> [] then
            (case re_search (pat_nivel E) (get_attr img (ascii ''src'') []) of
               Some (m, g) \<Rightarrow> g
             | None \<Rightarrow> ascii ''desconocido'')
          else ascii ''desconocido'')"

definition parse_poblacion :: "env \<Rightarrow> node \<Rightarrow> pystr \<Rightarrow> pystr" where
  "parse_poblacion E cell_provincia prov =
     (let full_text = strip E (get_text cell_provincia)
      in if prov \<noteq> [] \<and> contains prov full_text then strip E (replace prov [] full_text)
         else [])"

text \<open>
  \<open>str(node)\<close> and the truth value of a node: a piece of text is its own string and is
  true when not empty; a tag renders as markup and is always true.
\<close>

fun node_str :: "env \<Rightarrow> node \<Rightarrow> pystr" where
  "node_str E (Text s) = s"
| "node_str E (Tag name attrs children) = decode E (Tag name attrs children)"

fun truthy :: "node option \<Rightarrow> bool" where
  "truthy None = False"
| "truthy (Some (Text s)) = (s \<noteq> [])"
| "truthy (Some (Tag name attrs children)) = True"

definition after_sentido :: "env \<Rightarrow> node option \<times> node \<Rightarrow> bool" where
  "after_sentido E pb =
     (case pb of
        (None, b) \<Rightarrow> False
      | (Some prev_text, b) \<Rightarrow>
          truthy (Some prev_text)
          \<and> contains (ascii ''sentido'') (lower_str E (node_str E prev_text)))"

definition parse_sentido :: "env \<Rightarrow> node \<Rightarrow> pystr \<Rightarrow> pystr" where
  "parse_sentido E cell_desc descripcion_texto =
     (case re_search (pat_sentido E) descripcion_texto of
        Some (m, g) \<Rightarrow> g
      | None \<Rightarrow>
         (case List.find (after_sentido E) (find_all_prev (ascii ''b'') cell_desc) of
            Some (prev_text, b) \<Rightarrow> strip E (get_text b)
          | None \<Rightarrow> []))"

text \<open>
  \<open>parse_row\<close> reads \<open>cells[0]\<close> to \<open>cells[5]\<close>, so with fewer than six cells it raises
  \<open>IndexError\<close>; otherwise it returns an \<open>Incidencia\<close>, never \<open>None\<close>.
\<close>

definition parse_row :: "env \<Rightarrow> node list \<Rightarrow> pystr \<Rightarrow> exn + Incidencia" where
  "parse_row E cells row_id =
     (if length cells < 6 then Inl IndexError
      else
        (let hora_inicio = tag_text E (ascii ''span'') (cells ! 0) [];
             fecha_inicio = tag_text E (ascii ''a'') (cells ! 0) [];
             (hora_fin, fecha_fin) = parse_fin E (cells ! 1);
             nivel = parse_nivel E (cells ! 2);
             provincia = tag_text E (ascii ''b'') (cells ! 3) [];
             poblacion = parse_poblacion E (cells ! 3) provincia;
             carretera = tag_text E (ascii ''b'') (cells ! 4) [];
             descripcion_texto = sub_spaces E (strip E (get_text (cells ! 5)));
             pk = (case re_search (pat_km E) descripcion_texto of
                     Some (m, g) \<Rightarrow> g | None \<Rightarrow> []);
             upper_desc = upper E descripcion_texto;
             tipo = (if contains OBSTACULO_FIJO upper_desc \<and> contains ACCIDENTE upper_desc
                     then OBSTACULO_FIJO_POR_ACCIDENTE else OBSTACULO_FIJO);
             sentido = parse_sentido E (cells ! 5) descripcion_texto
         in Inr \<lparr>id_dgt = row_id, tipo = tipo, fecha_inicio = fecha_inicio,
                 hora_inicio = hora_inicio, fecha_fin = fecha_fin, hora_fin = hora_fin,
                 nivel = nivel, comunidad = get_comunidad E provincia, provincia = provincia,
                 poblacion = poblacion, carretera = carretera, pk = pk, sentido = sentido,
                 descripcion = descripcion_texto, activa = (fecha_fin = None),
                 latitud_geo = None, longitud_geo = None, precision_geo = None\<rparr>))"

text \<open>
  The loop of \<open>parse_incidencias\<close> over the rows, with the list it appends to. The body
  of its \<open>try\<close> is a parameter: whatever it raises, the row is skipped.
\<close>

fun parse_rows ::
  "env \<Rightarrow> (node list \<Rightarrow> pystr \<Rightarrow> exn + Incidencia) \<Rightarrow> node list \<Rightarrow> Incidencia list \<Rightarrow>
   Incidencia list" where
  "parse_rows E prs [] incidencias = incidencias"
| "parse_rows E prs (row # rows) incidencias =
     (if \<not> contains OBSTACULO_FIJO (upper E (get_text row)) then parse_rows E prs rows incidencias
      else if length (find_all (ascii ''td'') row) < 6 then parse_rows E prs rows incidencias
      else (case prs (find_all (ascii ''td'') row) (extract_id E row) of
              Inr incidencia \<Rightarrow> parse_rows E prs rows (incidencias @ [incidencia])
            | Inl e \<Rightarrow> parse_rows E prs rows incidencias))"

text \<open>What \<open>parse_incidencias\<close> does with the parsed document: the loop over all its rows.\<close>

definition parse_soup :: "env \<Rightarrow> node \<Rightarrow> Incidencia list" where
  "parse_soup E soup = parse_rows E (parse_row E) (find_all (ascii ''tr'') soup) []"

text \<open>
  \<open>parse_incidencias\<close> first hands the markup to the parser library, outside any \<open>try\<close>:
  \<open>BeautifulSoup(html, 'html.parser')\<close> returns the document or raises, and what it
  raises leaves \<open>parse_incidencias\<close>. The parser is not part of the repository and is
  taken as given.
\<close>

definition parse_incidencias ::
  "env \<Rightarrow> (pystr \<Rightarrow> exn + node) \<Rightarrow> pystr \<Rightarrow> exn + Incidencia list" where
  "parse_incidencias E parser html =
     (case parser html of
        Inl e \<Rightarrow> Inl e
      | Inr soup \<Rightarrow> Inr (parse_soup E soup))"

section \<open>Example rows\<close>

text \<open>
  A row as the upstream table has it, a row with one cell, a row of another category, a
  row whose end cell has an hour and no date, a
  row whose description names an accident while the category phrase stands in another
  cell, and a row parser that raises on a row without identifier, which exercises the
  \<open>except\<close> branch of the loop.
\<close>

definition celda :: "node list \<Rightarrow> node" where
  "celda children = Tag (ascii ''td'') [] children"

definition fila_ejemplo :: node where
  "fila_ejemplo = Tag (ascii ''tr'') []
     [celda [Tag (ascii ''span'') [] [Text (ascii ''10:30'')],
             Tag (ascii ''a'') [(ascii ''onclick'', ascii ''ver(inciCodigo=1234)'')]
               [Text (ascii ''01/01/2024'')]],
      celda [Tag (ascii ''span'') [] [Text (ascii '' '')]],
      celda [Tag (ascii ''img'') [(ascii ''src'', ascii ''img/nivel_amarillo.gif'')] []],
      celda [Tag (ascii ''b'') [] [Text (ascii ''MADRID'')], Text (ascii '' ALCOBENDAS'')],
      celda [Tag (ascii ''b'') [] [Text (ascii ''A-1'')]],
      celda [Text (ascii ''OBST'' @ [193] @ ascii ''CULO FIJO por accidente km 23,5 sentido Norte.'')]]"

definition fila_corta :: node where
  "fila_corta = Tag (ascii ''tr'') [] [celda [Text (ascii ''OBST'' @ [193] @ ascii ''CULO FIJO'')]]"

definition fila_ajena :: node where
  "fila_ajena = Tag (ascii ''tr'') [] [celda [Text (ascii ''OBRAS'')]]"

definition fila_accidente :: node where
  "fila_accidente = Tag (ascii ''tr'') []
     [celda [], celda [],
      celda [Text (ascii ''OBST'' @ [193] @ ascii ''CULO FIJO'')],
      celda [Tag (ascii ''b'') [] [Text (ascii ''MADRID'')]],
      celda [Tag (ascii ''b'') [] [Text (ascii ''A-1'')]],
      celda [Text (ascii ''Accidente en km 12'')]]"

definition fila_sin_fecha :: node where
  "fila_sin_fecha = Tag (ascii ''tr'') []
     [celda [Tag (ascii ''span'') [] [Text (ascii ''10:30'')],
             Tag (ascii ''a'') [] [Text (ascii ''01/01/2024'')]],
      celda [Tag (ascii ''span'') [] [Text (ascii ''12:00'')]],
      celda [],
      celda [Tag (ascii ''b'') [] [Text (ascii ''MADRID'')]],
      celda [Tag (ascii ''b'') [] [Text (ascii ''A-1'')]],
      celda [Text (ascii ''OBST'' @ [193] @ ascii ''CULO FIJO km 12'')]]"

definition parser_sin_id :: "env \<Rightarrow> node list \<Rightarrow> pystr \<Rightarrow> exn + Incidencia" where
  "parser_sin_id E cells row_id = (if row_id = [] then Inl IndexError else parse_row E cells row_id)"

text \<open>
  The parser library on the two documents of the examples: it rejects the marked section
  \<^verbatim>\<open><![x]>\<close>, which the standard HTML parser cannot read, and reads the empty string as
  the empty document. What it does with any other document is not used below, and is
  put as the empty document.
\<close>

definition parser_ejemplo :: "pystr \<Rightarrow> exn + node" where
  "parser_ejemplo html =
     (if html = ascii ''<![x]>'' then Inl ParserRejectedMarkup
      else Inr (Tag (ascii ''[document]'') [] []))"

text \<open>
  Two resolver calls whose inputs differ and whose normalized inputs agree: the marker
  with a comma and with a dot, the locality with and without a qualifier in brackets,
  the region left out and given.
\<close>

definition llamada_coma :: "service \<Rightarrow> geo_state \<Rightarrow> Coordenadas option \<times> geo_state" where
  "llamada_coma srv =
     geocodificar_baliza latin1 srv instant (ascii ''A-1'') (ascii ''23,5'') (ascii ''MADRID'')
       (ascii ''Alcobendas (M)'') []"

definition llamada_punto :: "service \<Rightarrow> geo_state \<Rightarrow> Coordenadas option \<times> geo_state" where
  "llamada_punto srv =
     geocodificar_baliza latin1 srv instant (ascii ''A-1'') (ascii ''23.5'') (ascii ''MADRID'')
       (ascii ''Alcobendas'') (ascii ''COMUNIDAD DE MADRID'')"


section \<open>The resolver: memo cache and cascade\<close>

lemma ascii_simps [simp]: "ascii [] = []" "ascii (c # cs) = of_char c # ascii cs"
  by (simp_all add: ascii_def)

lemmas run_defs = test_call_def geocodificar_baliza_def estrategia_def geocodificar_nominatim_def
  rate_limit_def pass_def instant_def initial_state_def pk_normalizado_def poblacion_limpia_def strip_def latin1_def
  py_isspace_def query1_def query2_def query3_def query4_def query5_def query6_def query7_def
  Espana_def src_nominatim_def src_poblacion_def src_provincia_def Let_def

lemma pass_frame [simp]:
  "geocode_cache (pass lag d st) = geocode_cache st"
  "last_request_time (pass lag d st) = last_request_time st"
  "rate_limit_calls (pass lag d st) = rate_limit_calls st"
  "request_times (pass lag d st) = request_times st"
  "requested (pass lag d st) = requested st"
  "attempted (pass lag d st) = attempted st"
  "printed (pass lag d st) = printed st"
  "now (pass lag d st) = now st + d + lag (steps st)"
  by (simp_all add: pass_def)

lemma rate_limit_frame [simp]:
  "geocode_cache (rate_limit lag st) = geocode_cache st"
  "rate_limit_calls (rate_limit lag st) = Suc (rate_limit_calls st)"
  "requested (rate_limit lag st) = requested st"
  "attempted (rate_limit lag st) = attempted st"
  "printed (rate_limit lag st) = printed st"
  by (simp_all add: rate_limit_def Let_def)

lemma nominatim_attempted:
  "attempted (snd (geocodificar_nominatim srv lag q st)) = attempted st @ [q]"
  by (simp add: geocodificar_nominatim_def Let_def split: option.splits response.splits)

lemma nominatim_hit:
  "geocode_cache st q = Some r \<Longrightarrow>
   geocodificar_nominatim srv lag q st = (r, (pass lag 0 st)\<lparr>attempted := attempted st @ [q]\<rparr>)"
  by (simp add: geocodificar_nominatim_def Let_def)

lemma nominatim_found:
  "geocodificar_nominatim srv lag q st = (Some p, st') \<Longrightarrow> geocode_cache st' q = Some (Some p)"
  by (auto simp add: geocodificar_nominatim_def Let_def split: option.splits response.splits)

lemma nominatim_mono:
  "geocode_cache st \<subseteq>\<^sub>m geocode_cache (snd (geocodificar_nominatim srv lag q st)) \<and>
   prefix (printed st) (printed (snd (geocodificar_nominatim srv lag q st)))"
  by (auto simp add: geocodificar_nominatim_def Let_def map_le_def split: option.splits response.splits)

lemma nominatim_quiet:
  "geocodificar_nominatim srv lag q st = (x, st') \<Longrightarrow> printed st' = printed st \<Longrightarrow>
   geocode_cache st' q = Some x"
  by (auto simp add: geocodificar_nominatim_def Let_def split: option.splits response.splits)

lemma grows_stop: "grows (\<lambda>st. (None, st))"
  by (simp add: grows_def)

lemma grows_estrategia:
  assumes "grows rest"
  shows "grows (estrategia srv lag c q prec src rest)"
proof -
  have "prefix (attempted st) (attempted (snd (estrategia srv lag c q prec src rest st))) \<and>
        geocode_cache st \<subseteq>\<^sub>m geocode_cache (snd (estrategia srv lag c q prec src rest st)) \<and>
        prefix (printed st) (printed (snd (estrategia srv lag c q prec src rest st)))" for st
  proof (cases c)
    case False
    with assms show ?thesis by (simp add: estrategia_def grows_def)
  next
    case True
    obtain x sa where n: "geocodificar_nominatim srv lag q st = (x, sa)" by (cases "geocodificar_nominatim srv lag q st")
    have a: "attempted sa = attempted st @ [q]" using nominatim_attempted [of srv lag q st] n by simp
    have m: "geocode_cache st \<subseteq>\<^sub>m geocode_cache sa" "prefix (printed st) (printed sa)"
      using nominatim_mono [of st srv lag q] n by simp_all
    show ?thesis
    proof (cases x)
      case None
      have r: "prefix (attempted sa) (attempted (snd (rest sa)))"
              "geocode_cache sa \<subseteq>\<^sub>m geocode_cache (snd (rest sa))"
              "prefix (printed sa) (printed (snd (rest sa)))"
        using assms by (simp_all add: grows_def)
      have e: "estrategia srv lag c q prec src rest st = rest sa"
        using True n None by (simp add: estrategia_def)
      from r(1) a have "prefix (attempted st) (attempted (snd (rest sa)))"
        by (metis prefix_order.trans prefixI)
      moreover from m(1) r(2) have "geocode_cache st \<subseteq>\<^sub>m geocode_cache (snd (rest sa))"
        by (rule map_le_trans)
      moreover from m(2) r(3) have "prefix (printed st) (printed (snd (rest sa)))"
        by (rule prefix_order.trans)
      ultimately show ?thesis using e by simp
    next
      case (Some p)
      then show ?thesis using True n a m by (cases p) (simp add: estrategia_def)
    qed
  qed
  then show ?thesis unfolding grows_def by blast
qed

lemma estrategia_first:
  assumes "grows rest" and c
  shows "prefix (attempted st @ [q]) (attempted (snd (estrategia srv lag c q prec src rest st)))"
proof -
  obtain x sa where n: "geocodificar_nominatim srv lag q st = (x, sa)" by (cases "geocodificar_nominatim srv lag q st")
  have a: "attempted sa = attempted st @ [q]" using nominatim_attempted [of srv lag q st] n by simp
  show ?thesis
  proof (cases x)
    case None
    have "prefix (attempted sa) (attempted (snd (rest sa)))" using assms(1) by (simp add: grows_def)
    then show ?thesis using assms(2) n None a by (simp add: estrategia_def)
  next
    case (Some p)
    then show ?thesis using assms(2) n a by (cases p) (simp add: estrategia_def)
  qed
qed

lemma from_levels_stop: "from_levels (\<lambda>st. (None, st)) []"
  by (simp add: from_levels_def)

lemma from_levels_estrategia:
  assumes "from_levels rest lvs"
  shows "from_levels (estrategia srv lag c q prec src rest) ((q, prec, src) # lvs)"
  unfolding from_levels_def
proof (intro allI impI)
  fix st r st'
  assume e: "estrategia srv lag c q prec src rest st = (Some r, st')"
  show "\<exists>lv \<in> set ((q, prec, src) # lvs). sourced st' r lv"
  proof (cases c)
    case False
    with e have "rest st = (Some r, st')" by (simp add: estrategia_def)
    with assms show ?thesis by (auto simp: from_levels_def)
  next
    case True
    obtain x sa where n: "geocodificar_nominatim srv lag q st = (x, sa)" by (cases "geocodificar_nominatim srv lag q st")
    show ?thesis
    proof (cases x)
      case None
      with e True n have "rest sa = (Some r, st')" by (simp add: estrategia_def)
      with assms show ?thesis by (auto simp: from_levels_def)
    next
      case (Some p)
      obtain lat lon where p: "p = (lat, lon)" by (cases p)
      from e True n Some p have r: "r = \<lparr>latitud = lat, longitud = lon, precision = prec, fuente = src @ q\<rparr>"
        and s: "st' = sa" by (simp_all add: estrategia_def)
      from n Some p have "geocode_cache sa q = Some (Some (lat, lon))"
        using nominatim_found [of srv lag q st "(lat, lon)" sa] by simp
      with r s have "sourced st' r (q, prec, src)" by (simp add: sourced_def)
      then show ?thesis by simp
    qed
  qed
qed

lemma replays_stop: "replays (\<lambda>st. (None, st))"
  by (simp add: replays_def)

lemma replays_estrategia:
  assumes g: "grows rest" and rp: "replays rest"
  shows "replays (estrategia srv lag c q prec src rest)"
  unfolding replays_def
proof (intro allI impI)
  fix st s2 :: geo_state
  let ?f = "estrategia srv lag c q prec src rest"
  assume quiet: "printed (snd (?f st)) = printed st"
    and le: "geocode_cache (snd (?f st)) \<subseteq>\<^sub>m geocode_cache s2"
  show "fst (?f s2) = fst (?f st) \<and> requested (snd (?f s2)) = requested s2 \<and>
        rate_limit_calls (snd (?f s2)) = rate_limit_calls s2 \<and>
        geocode_cache (snd (?f s2)) = geocode_cache s2 \<and> printed (snd (?f s2)) = printed s2"
  proof (cases c)
    case False
    then have "?f st = rest st" "?f s2 = rest s2" by (simp_all add: estrategia_def)
    with rp quiet le show ?thesis unfolding replays_def by metis
  next
    case True
    obtain x sa where n: "geocodificar_nominatim srv lag q st = (x, sa)" by (cases "geocodificar_nominatim srv lag q st")
    have m: "prefix (printed st) (printed sa)"
      using nominatim_mono [of st srv lag q] n by simp
    show ?thesis
    proof (cases x)
      case None
      have e: "?f st = rest sa" using True n None by (simp add: estrategia_def)
      have gr: "prefix (printed sa) (printed (snd (rest sa)))"
        "geocode_cache sa \<subseteq>\<^sub>m geocode_cache (snd (rest sa))" using g by (simp_all add: grows_def)
      from quiet e have pe: "printed (snd (rest sa)) = printed st" by simp
      with m gr(1) have psa: "printed sa = printed st"
        by (metis prefix_order.antisym)
      then have "geocode_cache sa q = Some None" using nominatim_quiet [OF n] None by simp
      with gr(2) le e have "geocode_cache s2 q = Some None"
        by (metis (no_types, lifting) domI map_le_def)
      then have h: "geocodificar_nominatim srv lag q s2 = (None, (pass lag 0 s2)\<lparr>attempted := attempted s2 @ [q]\<rparr>)"
        by (rule nominatim_hit)
      let ?s2 = "(pass lag 0 s2)\<lparr>attempted := attempted s2 @ [q]\<rparr>"
      have e2: "?f s2 = rest ?s2" using True h by (simp add: estrategia_def)
      have "printed (snd (rest sa)) = printed sa" using pe psa by simp
      moreover have "geocode_cache (snd (rest sa)) \<subseteq>\<^sub>m geocode_cache ?s2"
        using le e by simp
      ultimately have "fst (rest ?s2) = fst (rest sa) \<and> requested (snd (rest ?s2)) = requested ?s2 \<and>
        rate_limit_calls (snd (rest ?s2)) = rate_limit_calls ?s2 \<and>
        geocode_cache (snd (rest ?s2)) = geocode_cache ?s2 \<and> printed (snd (rest ?s2)) = printed ?s2"
        using rp unfolding replays_def by blast
      then show ?thesis using e e2 by simp
    next
      case (Some p)
      obtain lat lon where p: "p = (lat, lon)" by (cases p)
      have e: "?f st = (Some \<lparr>latitud = lat, longitud = lon, precision = prec, fuente = src @ q\<rparr>, sa)"
        using True n Some p by (simp add: estrategia_def)
      have "geocode_cache sa q = Some (Some (lat, lon))"
        using nominatim_found [of srv lag q st "(lat, lon)" sa] n Some p by simp
      with le e have "geocode_cache s2 q = Some (Some (lat, lon))"
        by (metis (no_types, lifting) domI map_le_def snd_conv)
      then have h: "geocodificar_nominatim srv lag q s2 = (Some (lat, lon), (pass lag 0 s2)\<lparr>attempted := attempted s2 @ [q]\<rparr>)"
        by (rule nominatim_hit)
      then show ?thesis using True e by (simp add: estrategia_def)
    qed
  qed
qed

lemma replays_baliza:
  "replays (geocodificar_baliza E srv lag carr km prov pob com)"
  unfolding geocodificar_baliza_def Let_def
  by (intro replays_estrategia grows_estrategia grows_stop replays_stop)

lemma from_levels_baliza:
  "from_levels (geocodificar_baliza E srv lag carr km prov pob com)
     (niveles carr (pk_normalizado km) prov (poblacion_limpia E pob))"
  unfolding geocodificar_baliza_def Let_def niveles_def
  by (intro from_levels_estrategia from_levels_stop)


lemma estrategia_keeps:
  assumes "\<And>q s. P s \<Longrightarrow> P (snd (geocodificar_nominatim srv lag q s))"
    and "\<And>s. P s \<Longrightarrow> P (snd (rest s))"
    and "P st"
  shows "P (snd (estrategia srv lag c q prec src rest st))"
proof (cases c)
  case False
  then show ?thesis using assms(2) [OF assms(3)] by (simp add: estrategia_def)
next
  case True
  obtain x sa where n: "geocodificar_nominatim srv lag q st = (x, sa)"
    by (cases "geocodificar_nominatim srv lag q st")
  have sa: "P sa" using assms(1) [OF assms(3), of q] n by simp
  show ?thesis
  proof (cases x)
    case None
    then show ?thesis using True n assms(2) [OF sa] by (simp add: estrategia_def)
  next
    case (Some p)
    then show ?thesis using True n sa by (cases p) (simp add: estrategia_def)
  qed
qed

lemma baliza_keeps:
  assumes n: "\<And>q s. P s \<Longrightarrow> P (snd (geocodificar_nominatim srv lag q s))"
    and "P st"
  shows "P (snd (geocodificar_baliza E srv lag carr km prov pob com st))"
  unfolding geocodificar_baliza_def Let_def
  by (intro estrategia_keeps [of P srv lag] n) (simp_all add: assms(2))

lemma at_most_stop: "at_most 0 (\<lambda>st. (None, st))"
  by (simp add: at_most_def)

lemma nominatim_one_request:
  "length (requested (snd (geocodificar_nominatim srv lag q st))) \<le> Suc (length (requested st))"
  by (simp add: geocodificar_nominatim_def Let_def split: option.splits response.splits)

lemma at_most_estrategia:
  assumes "at_most n rest"
  shows "at_most (Suc n) (estrategia srv lag c q prec src rest)"
  unfolding at_most_def
proof
  fix st :: geo_state
  obtain x sa where n: "geocodificar_nominatim srv lag q st = (x, sa)"
    by (cases "geocodificar_nominatim srv lag q st")
  have one: "length (requested sa) \<le> Suc (length (requested st))"
    using nominatim_one_request [of srv lag q st] n by simp
  have r: "length (requested (snd (rest s))) \<le> length (requested s) + n" for s
    using assms by (simp add: at_most_def)
  show "length (requested (snd (estrategia srv lag c q prec src rest st)))
          \<le> length (requested st) + Suc n"
  proof (cases c)
    case False
    then show ?thesis using r [of st] by (simp add: estrategia_def)
  next
    case True
    show ?thesis
    proof (cases x)
      case None
      then show ?thesis using True n one r [of sa] by (simp add: estrategia_def)
    next
      case (Some p)
      then show ?thesis using True n one by (cases p) (simp add: estrategia_def)
    qed
  qed
qed

lemma at_most_baliza:
  "at_most 7 (geocodificar_baliza E srv lag carr km prov pob com)"
proof -
  have "at_most (Suc (Suc (Suc (Suc (Suc (Suc (Suc 0)))))))
          (geocodificar_baliza E srv lag carr km prov pob com)"
    unfolding geocodificar_baliza_def Let_def
    by (intro at_most_estrategia at_most_stop)
  then show ?thesis by (simp add: eval_nat_numeral)
qed

lemma came_from_later:
  assumes "came_from srv st0 s q p" and "prefix (requested s) (requested s')"
  shows "came_from srv st0 s' q p"
proof -
  have "set (prefixes (requested s)) \<subseteq> set (prefixes (requested s'))"
    using assms(2) by (auto simp: in_set_prefixes)
  then show ?thesis using assms(1) unfolding came_from_def by blast
qed

lemma nominatim_provenance:
  assumes "provenance srv st0 s"
  shows "provenance srv st0 (snd (geocodificar_nominatim srv lag q s))"
proof (cases "geocode_cache s q")
  case (Some cached)
  then have "snd (geocodificar_nominatim srv lag q s) = (pass lag 0 s)\<lparr>attempted := attempted s @ [q]\<rparr>"
    using nominatim_hit [of s q cached srv lag] by simp
  then show ?thesis using assms by (simp add: provenance_def came_from_def)
next
  case None
  let ?s' = "snd (geocodificar_nominatim srv lag q s)"
  have req: "requested ?s' = requested s @ [q]"
    using None by (simp add: geocodificar_nominatim_def Let_def split: response.splits)
  have pre: "prefix (requested st0) (requested s)" using assms by (simp add: provenance_def)
  then have pre': "prefix (requested st0) (requested ?s')" using req by simp
  have len: "length (requested st0) \<le> length (requested s)" using pre by (rule prefix_length_le)
  have old: "came_from srv st0 ?s' q' p" if "geocode_cache s q' = Some (Some p)" for q' p
  proof -
    have "came_from srv st0 s q' p" using assms that unfolding provenance_def by blast
    then show ?thesis by (rule came_from_later) (simp add: req)
  qed
  have new: "came_from srv st0 ?s' q (lat, lon)" if "srv (requested s) q = First lat lon" for lat lon
    unfolding came_from_def using that len req
    by (auto simp: in_set_prefixes intro!: bexI [of _ "requested s"])
  have "came_from srv st0 ?s' q' p" if c: "geocode_cache ?s' q' = Some (Some p)" for q' p
  proof (cases "srv (requested s) q")
    case Raised
    then have "geocode_cache ?s' = geocode_cache s"
      using None by (simp add: geocodificar_nominatim_def Let_def)
    with c old show ?thesis by simp
  next
    case Falsy
    then have "geocode_cache ?s' = (geocode_cache s)(q \<mapsto> None)"
      using None by (simp add: geocodificar_nominatim_def Let_def)
    with c old show ?thesis by (cases "q' = q") simp_all
  next
    case (First lat lon)
    then have "geocode_cache ?s' = (geocode_cache s)(q \<mapsto> Some (lat, lon))"
      using None by (simp add: geocodificar_nominatim_def Let_def)
    with c old new [OF First] show ?thesis by (cases "q' = q") auto
  qed
  with pre' show ?thesis unfolding provenance_def by blast
qed

lemma provenance_start: "provenance srv st st"
  by (simp add: provenance_def came_from_def)

lemma baliza_provenance:
  "provenance srv st (snd (geocodificar_baliza E srv lag carr km prov pob com st))"
  by (rule baliza_keeps [of "provenance srv st"]) (simp_all add: nominatim_provenance provenance_start)









lemma niveles_labels:
  "lv \<in> set (niveles carr pkn prov pob) \<Longrightarrow>
   fst (snd lv) \<in> set (map ascii [''muy_alta'', ''alta'', ''media'', ''baja'', ''estimada''])"
  by (auto simp: niveles_def)

lemma baliza_normalized:
  assumes "pk_normalizado km2 = pk_normalizado km1"
    and "poblacion_limpia E pob2 = poblacion_limpia E pob1"
  shows "geocodificar_baliza E srv lag carr km2 prov pob2 com2
         = geocodificar_baliza E srv lag carr km1 prov pob1 com1"
  using assms by (simp add: geocodificar_baliza_def)

text \<open>
  C4. With road "A-1", marker "23", province "MADRID" and locality "Alcobendas", whatever
  the service answers and whatever the module has done before, the first query that
  \<open>geocodificar_baliza\<close> hands to \<open>geocodificar_nominatim\<close> is the four-field string
  "A-1 km 23, Alcobendas, MADRID, Espa\<^verbatim>\<open>n\<close>a" (with n-tilde); the fallback queries come after it.
\<close>

theorem first_query_four_fields:
  "\<exists>more. attempted (snd (geocodificar_baliza latin1 srv lag (ascii ''A-1'') (ascii ''23'')
              (ascii ''MADRID'') (ascii ''Alcobendas'') com st))
         = attempted st
             @ (ascii ''A-1 km 23, Alcobendas, MADRID, Espa'' @ [241] @ ascii ''a'') # more"
proof -
  let ?q = "ascii ''A-1 km 23, Alcobendas, MADRID, Espa'' @ [241] @ ascii ''a''"
  let ?run = "geocodificar_baliza latin1 srv lag (ascii ''A-1'') (ascii ''23'')
              (ascii ''MADRID'') (ascii ''Alcobendas'') com st"
  have pob: "poblacion_limpia latin1 (ascii ''Alcobendas'') = ascii ''Alcobendas''"
    by (simp add: poblacion_limpia_def strip_def latin1_def py_isspace_def)
  have km: "pk_normalizado (ascii ''23'') = ascii ''23''"
    by (simp add: pk_normalizado_def)
  have q: "query1 (ascii ''A-1'') (ascii ''23'') (ascii ''Alcobendas'') (ascii ''MADRID'') = ?q"
    by (simp add: query1_def Espana_def)
  have c: "ascii ''A-1'' \<noteq> [] \<and> ascii ''23'' \<noteq> [] \<and> ascii ''Alcobendas'' \<noteq> []"
    by simp
  have "prefix (attempted st @ [?q]) (attempted (snd ?run))"
    unfolding geocodificar_baliza_def Let_def pob km q
    by (rule estrategia_first [OF _ c]) (intro grows_estrategia grows_stop)
  then obtain more where "attempted (snd ?run) = (attempted st @ [?q]) @ more"
    by (rule prefixE)
  then show ?thesis by simp
qed

text \<open>
  C6. When \<open>geocodificar_baliza\<close> returns a \<open>Coordenadas\<close>, its precision is one of the
  five labels, hence not empty, and for one of the seven queries of the cascade the
  result carries the precision and the source of that query's block and exactly the
  latitude and longitude that the memo cache holds for the query; and these come from
  a lookup that succeeded: they were in the cache before the call, or the service has
  answered a request for that query, sent during the call, with them. When none of the
  seven queries has coordinates from the cache or from the service, the result is
  absent: nothing is built for a lookup that failed.
\<close>

theorem result_comes_from_a_query:
  "(fst (geocodificar_baliza E srv lag carr km prov pob com st) = Some r \<longrightarrow>
      precision r \<in> set (map ascii [''muy_alta'', ''alta'', ''media'', ''baja'', ''estimada''])
      \<and> precision r \<noteq> []
      \<and> (\<exists>lv \<in> set (niveles carr (pk_normalizado km) prov (poblacion_limpia E pob)).
            sourced (snd (geocodificar_baliza E srv lag carr km prov pob com st)) r lv
            \<and> came_from srv st (snd (geocodificar_baliza E srv lag carr km prov pob com st))
                 (fst lv) (latitud r, longitud r)))
   \<and> ((\<forall>lv \<in> set (niveles carr (pk_normalizado km) prov (poblacion_limpia E pob)).
         \<forall>p. \<not> came_from srv st (snd (geocodificar_baliza E srv lag carr km prov pob com st))
                 (fst lv) p) \<longrightarrow>
      fst (geocodificar_baliza E srv lag carr km prov pob com st) = None)"
proof -
  let ?run = "geocodificar_baliza E srv lag carr km prov pob com st"
  let ?lvs = "niveles carr (pk_normalizado km) prov (poblacion_limpia E pob)"
  have found: "\<exists>lv \<in> set ?lvs. sourced (snd ?run) r' lv
                 \<and> came_from srv st (snd ?run) (fst lv) (latitud r', longitud r')"
    if s: "fst ?run = Some r'" for r'
  proof -
    have "?run = (Some r', snd ?run)" using s by (cases ?run) simp
    with from_levels_baliza [of E srv lag carr km prov pob com]
    obtain lv where lv: "lv \<in> set ?lvs" and so: "sourced (snd ?run) r' lv"
      unfolding from_levels_def by blast
    obtain q prec src where t: "lv = (q, prec, src)" by (cases lv)
    from so t have "geocode_cache (snd ?run) q = Some (Some (latitud r', longitud r'))"
      by (simp add: sourced_def)
    with baliza_provenance [of srv st E lag carr km prov pob com]
    have "came_from srv st (snd ?run) q (latitud r', longitud r')"
      unfolding provenance_def by blast
    with lv so t show ?thesis by auto
  qed
  have 1: "fst ?run = Some r \<longrightarrow>
      precision r \<in> set (map ascii [''muy_alta'', ''alta'', ''media'', ''baja'', ''estimada''])
      \<and> precision r \<noteq> []
      \<and> (\<exists>lv \<in> set ?lvs. sourced (snd ?run) r lv
            \<and> came_from srv st (snd ?run) (fst lv) (latitud r, longitud r))"
  proof
    assume s: "fst ?run = Some r"
    from found [OF s] obtain lv where lv: "lv \<in> set ?lvs" and so: "sourced (snd ?run) r lv"
      and cf: "came_from srv st (snd ?run) (fst lv) (latitud r, longitud r)" by blast
    have "precision r = fst (snd lv)" using so by (cases lv) (simp add: sourced_def)
    with niveles_labels [OF lv]
    have p: "precision r \<in> set (map ascii [''muy_alta'', ''alta'', ''media'', ''baja'', ''estimada''])"
      by simp
    then have "precision r \<noteq> []" by auto
    with p lv so cf show "precision r \<in> set (map ascii [''muy_alta'', ''alta'', ''media'', ''baja'', ''estimada''])
      \<and> precision r \<noteq> []
      \<and> (\<exists>lv \<in> set ?lvs. sourced (snd ?run) r lv
            \<and> came_from srv st (snd ?run) (fst lv) (latitud r, longitud r))" by blast
  qed
  have 2: "(\<forall>lv \<in> set ?lvs. \<forall>p. \<not> came_from srv st (snd ?run) (fst lv) p) \<longrightarrow> fst ?run = None"
  proof
    assume none: "\<forall>lv \<in> set ?lvs. \<forall>p. \<not> came_from srv st (snd ?run) (fst lv) p"
    show "fst ?run = None"
    proof (cases "fst ?run")
      case None
      then show ?thesis .
    next
      case (Some r')
      from found [OF Some] none show ?thesis by blast
    qed
  qed
  from 1 2 show ?thesis by (rule conjI)
qed

theorem result_comes_from_a_query_witness:
  "fst (test_call always_found initial_state)
     = Some \<lparr>latitud = 1, longitud = 2, precision = ascii ''muy_alta'',
             fuente = ascii ''Nominatim: A-1 km 23, Alcobendas, MADRID, Espa'' @ [241] @ ascii ''a''\<rparr>
   \<and> came_from always_found initial_state (snd (test_call always_found initial_state))
         (ascii ''A-1 km 23, Alcobendas, MADRID, Espa'' @ [241] @ ascii ''a'') (1, 2)
   \<and> fst (test_call no_results initial_state) = None"
  using result_comes_from_a_query [of latin1 always_found instant "ascii ''A-1''" "ascii ''23''"
      "ascii ''MADRID''" "ascii ''Alcobendas''" "[]" initial_state
      "\<lparr>latitud = 1, longitud = 2, precision = ascii ''muy_alta'',
        fuente = ascii ''Nominatim: A-1 km 23, Alcobendas, MADRID, Espa'' @ [241] @ ascii ''a''\<rparr>"]
    result_comes_from_a_query [of latin1 no_results instant "ascii ''A-1''" "ascii ''23''"
      "ascii ''MADRID''" "ascii ''Alcobendas''" "[]" initial_state]
  by (simp add: run_defs always_found_def no_results_def sourced_def came_from_def niveles_def)

text \<open>
  C10. A query that is not in the memo cache is sent to the service. When the request
  raises, the call returns nothing found and leaves the cache as it was, so that the
  next call with the same query runs \<open>_rate_limit\<close> and sends the request again. When
  the service answers, with coordinates or with an empty result, the answer is stored
  and the next call with the same query returns it without \<open>_rate_limit\<close> and without a
  request.
\<close>

theorem failed_query_not_memoized:
  assumes "geocode_cache st q = None"
  shows "(srv (requested st) q = Raised \<longrightarrow>
            fst (geocodificar_nominatim srv lag q st) = None
          \<and> geocode_cache (snd (geocodificar_nominatim srv lag q st)) = geocode_cache st
          \<and> requested (snd (geocodificar_nominatim srv lag q (snd (geocodificar_nominatim srv lag q st))))
              = requested st @ [q, q]
          \<and> rate_limit_calls (snd (geocodificar_nominatim srv lag q (snd (geocodificar_nominatim srv lag q st))))
              = rate_limit_calls st + 2)
       \<and> (srv (requested st) q \<noteq> Raised \<longrightarrow>
            geocode_cache (snd (geocodificar_nominatim srv lag q st)) q
              = Some (fst (geocodificar_nominatim srv lag q st))
          \<and> fst (geocodificar_nominatim srv lag q (snd (geocodificar_nominatim srv lag q st)))
              = fst (geocodificar_nominatim srv lag q st)
          \<and> requested (snd (geocodificar_nominatim srv lag q (snd (geocodificar_nominatim srv lag q st))))
              = requested st @ [q]
          \<and> rate_limit_calls (snd (geocodificar_nominatim srv lag q (snd (geocodificar_nominatim srv lag q st))))
              = rate_limit_calls st + 1)"
  using assms
  by (cases "srv (requested st) q")
     (simp_all add: geocodificar_nominatim_def Let_def split: response.splits)

theorem failed_query_not_memoized_witness:
  "geocode_cache initial_state (ascii ''MADRID'') = None
   \<and> unreachable (requested initial_state) (ascii ''MADRID'') = Raised
   \<and> requested (snd (geocodificar_nominatim unreachable instant (ascii ''MADRID'')
          (snd (geocodificar_nominatim unreachable instant (ascii ''MADRID'') initial_state))))
       = [ascii ''MADRID'', ascii ''MADRID'']
   \<and> no_results (requested initial_state) (ascii ''MADRID'') \<noteq> Raised
   \<and> requested (snd (geocodificar_nominatim no_results instant (ascii ''MADRID'')
          (snd (geocodificar_nominatim no_results instant (ascii ''MADRID'') initial_state))))
       = [ascii ''MADRID'']"
  using failed_query_not_memoized [of initial_state "ascii ''MADRID''" unreachable instant]
        failed_query_not_memoized [of initial_state "ascii ''MADRID''" no_results instant]
  by (simp add: initial_state_def unreachable_def no_results_def)

text \<open>
  C2, as the spec states it, fails. The module's test call, run twice against a service
  that finds nothing, sends seven requests, one for each block of the cascade; run
  twice against a service that cannot be reached, it sends fourteen, the second call
  repeating every request of the first.
\<close>

theorem two_calls_seven_requests:
  "length (requested (snd (test_call no_results (snd (test_call no_results initial_state))))) = 7
   \<and> length (requested (snd (test_call unreachable (snd (test_call unreachable initial_state)))))
       = 14"
  by (simp add: run_defs no_results_def unreachable_def)

text \<open>
  C2, amended. \<open>geocodificar_nominatim\<close> looks every query up in the memo cache first, and
  a cached answer, coordinates or "no match", is returned without \<open>_rate_limit\<close> and
  without a request. One call of \<open>geocodificar_baliza\<close> sends at most seven requests.
  When a call has printed no request error, any later call with the same normalized
  inputs (the same road and province, markers equal after normalization, localities
  equal after cleaning, any region), made when the cache still holds what the first
  call left, returns the same result, sends no request, runs \<open>_rate_limit\<close> not once
  and leaves the cache as it is: the two calls together send at most seven requests.
\<close>

theorem second_call_sends_nothing:
  assumes "pk_normalizado km2 = pk_normalizado km1"
    and "poblacion_limpia E pob2 = poblacion_limpia E pob1"
  shows "(geocode_cache st q = Some x \<longrightarrow>
            fst (geocodificar_nominatim srv lag q st) = x
          \<and> requested (snd (geocodificar_nominatim srv lag q st)) = requested st
          \<and> rate_limit_calls (snd (geocodificar_nominatim srv lag q st)) = rate_limit_calls st
          \<and> geocode_cache (snd (geocodificar_nominatim srv lag q st)) = geocode_cache st)
     \<and> length (requested (snd (geocodificar_baliza E srv lag carr km1 prov pob1 com1 st0)))
         \<le> length (requested st0) + 7
     \<and> (printed (snd (geocodificar_baliza E srv lag carr km1 prov pob1 com1 st0)) = printed st0
        \<and> geocode_cache (snd (geocodificar_baliza E srv lag carr km1 prov pob1 com1 st0))
             \<subseteq>\<^sub>m geocode_cache s2 \<longrightarrow>
            fst (geocodificar_baliza E srv lag carr km2 prov pob2 com2 s2)
              = fst (geocodificar_baliza E srv lag carr km1 prov pob1 com1 st0)
          \<and> requested (snd (geocodificar_baliza E srv lag carr km2 prov pob2 com2 s2)) = requested s2
          \<and> rate_limit_calls (snd (geocodificar_baliza E srv lag carr km2 prov pob2 com2 s2))
              = rate_limit_calls s2
          \<and> geocode_cache (snd (geocodificar_baliza E srv lag carr km2 prov pob2 com2 s2))
              = geocode_cache s2)"
proof -
  let ?B = "geocodificar_baliza E srv lag carr km1 prov pob1 com1"
  have same: "geocodificar_baliza E srv lag carr km2 prov pob2 com2 = ?B"
    using assms by (rule baliza_normalized)
  have hit: "geocode_cache st q = Some x \<longrightarrow>
            fst (geocodificar_nominatim srv lag q st) = x
          \<and> requested (snd (geocodificar_nominatim srv lag q st)) = requested st
          \<and> rate_limit_calls (snd (geocodificar_nominatim srv lag q st)) = rate_limit_calls st
          \<and> geocode_cache (snd (geocodificar_nominatim srv lag q st)) = geocode_cache st"
    using nominatim_hit [of st q x srv lag] by simp
  have seven: "length (requested (snd (?B st0))) \<le> length (requested st0) + 7"
    using at_most_baliza [of E srv lag carr km1 prov pob1 com1] by (simp add: at_most_def)
  have again: "printed (snd (?B st0)) = printed st0
        \<and> geocode_cache (snd (?B st0)) \<subseteq>\<^sub>m geocode_cache s2 \<longrightarrow>
            fst (?B s2) = fst (?B st0)
          \<and> requested (snd (?B s2)) = requested s2
          \<and> rate_limit_calls (snd (?B s2)) = rate_limit_calls s2
          \<and> geocode_cache (snd (?B s2)) = geocode_cache s2"
    using replays_baliza [of E srv lag carr km1 prov pob1 com1]
    unfolding replays_def by blast
  from hit seven again show ?thesis unfolding same by (intro conjI)
qed

theorem second_call_sends_nothing_witness:
  "pk_normalizado (ascii ''23.5'') = pk_normalizado (ascii ''23,5'')
   \<and> poblacion_limpia latin1 (ascii ''Alcobendas'') = poblacion_limpia latin1 (ascii ''Alcobendas (M)'')
   \<and> geocode_cache (snd (llamada_coma no_results initial_state))
        (ascii ''MADRID, Espa'' @ [241] @ ascii ''a'') = Some None
   \<and> fst (geocodificar_nominatim no_results instant (ascii ''MADRID, Espa'' @ [241] @ ascii ''a'')
           (snd (llamada_coma no_results initial_state))) = None
   \<and> printed (snd (llamada_coma no_results initial_state)) = printed initial_state
   \<and> length (requested (snd (llamada_coma no_results initial_state))) = 7
   \<and> requested (snd (llamada_punto no_results (snd (llamada_coma no_results initial_state))))
       = requested (snd (llamada_coma no_results initial_state))"
proof -
  have k: "pk_normalizado (ascii ''23.5'') = pk_normalizado (ascii ''23,5'')"
    by (simp add: pk_normalizado_def)
  have p: "poblacion_limpia latin1 (ascii ''Alcobendas'') = poblacion_limpia latin1 (ascii ''Alcobendas (M)'')"
    by (simp add: poblacion_limpia_def strip_def latin1_def py_isspace_def)
  have c: "geocode_cache (snd (llamada_coma no_results initial_state))
        (ascii ''MADRID, Espa'' @ [241] @ ascii ''a'') = Some None"
    and q: "printed (snd (llamada_coma no_results initial_state)) = printed initial_state"
    and n: "length (requested (snd (llamada_coma no_results initial_state))) = 7"
    by (simp_all add: llamada_coma_def run_defs no_results_def)
  note t = second_call_sends_nothing [OF k p, of "snd (llamada_coma no_results initial_state)"
      "ascii ''MADRID, Espa'' @ [241] @ ascii ''a''" None no_results instant "ascii ''A-1''"
      "ascii ''MADRID''" "[]" initial_state "snd (llamada_coma no_results initial_state)"
      "ascii ''COMUNIDAD DE MADRID''", folded llamada_coma_def llamada_punto_def]
  from t c have h: "fst (geocodificar_nominatim no_results instant (ascii ''MADRID, Espa'' @ [241] @ ascii ''a'')
           (snd (llamada_coma no_results initial_state))) = None"
    by blast
  from t q have r: "requested (snd (llamada_punto no_results (snd (llamada_coma no_results initial_state))))
       = requested (snd (llamada_coma no_results initial_state))"
    by simp
  from k p c h q n r show ?thesis by (intro conjI)
qed



section \<open>The extractor\<close>

lemmas scan_defs = parse_soup_def find_all_def find_all_prev_def celda_def
  OBSTACULO_FIJO_def OBSTACULO_FIJO_POR_ACCIDENTE_def ACCIDENTE_def upper_def strip_def latin1_def
  latin1_upper_def py_isspace_def

lemma cells_ejemplo: "length (find_all (ascii ''td'') fila_ejemplo) = 6"
  by (simp add: fila_ejemplo_def scan_defs)

lemma frase_ejemplo: "contains OBSTACULO_FIJO (upper latin1 (get_text fila_ejemplo))"
  by (simp add: fila_ejemplo_def scan_defs)


lemma corta_cells: "length (find_all (ascii ''td'') fila_corta) < 6"
  by (simp add: fila_corta_def scan_defs)

lemma accidente_id: "extract_id latin1 fila_accidente = []"
  by (simp add: fila_accidente_def scan_defs extract_id_def)

lemma ejemplo_id: "extract_id latin1 fila_ejemplo = ascii ''1234''"
  by (simp add: fila_ejemplo_def scan_defs extract_id_def pat_inciCodigo_def lit_def latin1_isdigit_def)

lemma ajena_frase: "\<forall>r \<in> set [fila_ajena]. \<not> contains OBSTACULO_FIJO (upper latin1 (get_text r))"
  by (simp add: fila_ajena_def scan_defs)


lemma parse_rows_acc:
  "parse_rows E prs rows acc = acc @ parse_rows E prs rows []"
proof (induction rows arbitrary: acc)
  case Nil
  show ?case by simp
next
  case (Cons row rows)
  show ?case
  proof (cases "prs (find_all (ascii ''td'') row) (extract_id E row)")
    case (Inl e)
    then show ?thesis using Cons.IH [of acc] by simp
  next
    case (Inr inc)
    then show ?thesis using Cons.IH [of acc] Cons.IH [of "acc @ [inc]"] Cons.IH [of "[inc]"]
      by simp
  qed
qed

lemma parse_rows_append:
  "parse_rows E prs (xs @ ys) acc = parse_rows E prs ys (parse_rows E prs xs acc)"
  by (induction xs arbitrary: acc) (simp_all split: sum.splits)

lemma parse_rows_split:
  "parse_rows E prs (xs @ ys) [] = parse_rows E prs xs [] @ parse_rows E prs ys []"
  using parse_rows_append [of E prs xs ys "[]"] parse_rows_acc [of E prs ys "parse_rows E prs xs []"]
  by simp

lemma parse_row_fields:
  assumes "6 \<le> length cells"
  shows "\<exists>inc. parse_row E cells row_id = Inr inc
      \<and> descripcion inc = sub_spaces E (strip E (get_text (cells ! 5)))
      \<and> tipo inc = (if contains OBSTACULO_FIJO (upper E (descripcion inc))
                        \<and> contains ACCIDENTE (upper E (descripcion inc))
                     then OBSTACULO_FIJO_POR_ACCIDENTE else OBSTACULO_FIJO)
      \<and> hora_fin inc = fst (parse_fin E (cells ! 1))
      \<and> fecha_fin inc = snd (parse_fin E (cells ! 1))
      \<and> activa inc = (fecha_fin inc = None)"
  using assms by (simp add: parse_row_def Let_def split_def)

lemma match_one_nonempty:
  "match_here (One p # rest) s = Some (m, g) \<Longrightarrow> m \<noteq> []"
  by (cases s) (auto split: if_splits)

lemma re_search_one_nonempty:
  "re_search (One p # rest) s = Some (m, g) \<Longrightarrow> m \<noteq> []"
proof (induction s)
  case Nil
  then show ?case by simp
next
  case (Cons c cs)
  show ?case
  proof (cases "match_here (One p # rest) (c # cs)")
    case None
    with Cons show ?thesis by simp
  next
    case (Some r)
    with Cons.prems have "match_here (One p # rest) (c # cs) = Some (m, g)" by simp
    then show ?thesis by (rule match_one_nonempty)
  qed
qed

lemma fecha_nonempty:
  "map_option fst (re_search (pat_fecha E) s) \<noteq> Some []"
proof
  assume "map_option fst (re_search (pat_fecha E) s) = Some []"
  then obtain g where "re_search (pat_fecha E) s = Some ([], g)" by auto
  then show False using re_search_one_nonempty [of "isdigit E" _ s "[]" g]
    by (simp add: pat_fecha_def)
qed

lemma parse_fin_cases:
  "(fst (parse_fin E cell) \<noteq> None \<or> snd (parse_fin E cell) \<noteq> None \<longrightarrow>
      (\<exists>sp. find_tag (ascii ''span'') cell = Some sp \<and> strip E (get_text sp) \<noteq> []))
   \<and> ((\<forall>sp. find_tag (ascii ''span'') cell = Some sp \<longrightarrow> strip E (get_text sp) = []) \<longrightarrow>
      parse_fin E cell = (None, None))
   \<and> fst (parse_fin E cell) \<noteq> Some [] \<and> snd (parse_fin E cell) \<noteq> Some []"
  using fecha_nonempty [of E "get_text cell"]
  by (auto simp: parse_fin_def split: option.splits)

lemma parse_fin_text:
  "find_tag (ascii ''span'') cell = Some sp \<Longrightarrow> strip E (get_text sp) \<noteq> [] \<Longrightarrow>
   parse_fin E cell = (Some (strip E (get_text sp)),
                       map_option fst (re_search (pat_fecha E) (get_text cell)))"
  by (simp add: parse_fin_def del: ascii_simps)

lemma tipos_differ: "OBSTACULO_FIJO_POR_ACCIDENTE \<noteq> OBSTACULO_FIJO"
  by (simp add: OBSTACULO_FIJO_POR_ACCIDENTE_def OBSTACULO_FIJO_def)

lemma comunidades_nonempty: "(k, v) \<in> set PROVINCIAS_COMUNIDADES \<Longrightarrow> v \<noteq> []"
  by (auto simp: PROVINCIAS_COMUNIDADES_def)

lemma kept_step:
  assumes "contains OBSTACULO_FIJO (upper E (get_text row))"
    and "6 \<le> length (find_all (ascii ''td'') row)"
    and r: "parse_row E (find_all (ascii ''td'') row) (extract_id E row) = Inr inc"
  shows "parse_rows E (parse_row E) (row # after) [] = inc # parse_rows E (parse_row E) after []"
proof -
  have "parse_rows E (parse_row E) (row # after) [] = parse_rows E (parse_row E) after [inc]"
    using assms by (simp del: ascii_simps)
  also have "\<dots> = [inc] @ parse_rows E (parse_row E) after []"
    by (rule parse_rows_acc)
  finally show ?thesis by simp
qed

lemma parse_row_returns: "6 \<le> length cells \<Longrightarrow> \<exists>inc. parse_row E cells row_id = Inr inc"
  by (simp add: parse_row_def Let_def split_def)

lemma parse_row_activa: "parse_row E cells row_id = Inr inc \<Longrightarrow> activa inc = (fecha_fin inc = None)"
  by (auto simp: parse_row_def Let_def split_def split: if_splits)

lemma parse_row_fin:
  "parse_row E cells row_id = Inr inc \<Longrightarrow>
   hora_fin inc = fst (parse_fin E (cells ! 1)) \<and> fecha_fin inc = snd (parse_fin E (cells ! 1))"
  by (auto simp: parse_row_def Let_def split_def split: if_splits)

lemma parse_row_descripcion:
  "parse_row E cells row_id = Inr inc \<Longrightarrow>
   descripcion inc = sub_spaces E (strip E (get_text (cells ! 5)))"
  by (auto simp: parse_row_def Let_def split_def split: if_splits)

lemma parse_row_tipo:
  "parse_row E cells row_id = Inr inc \<Longrightarrow>
   tipo inc = (if contains OBSTACULO_FIJO (upper E (descripcion inc))
                  \<and> contains ACCIDENTE (upper E (descripcion inc))
               then OBSTACULO_FIJO_POR_ACCIDENTE else OBSTACULO_FIJO)"
  by (auto simp: parse_row_def Let_def split_def split: if_splits)

lemma skipped_step:
  assumes "\<not> contains OBSTACULO_FIJO (upper E (get_text row))
           \<or> length (find_all (ascii ''td'') row) < 6
           \<or> (\<exists>e. prs (find_all (ascii ''td'') row) (extract_id E row) = Inl e)"
  shows "parse_rows E prs (before @ row # after) [] = parse_rows E prs (before @ after) []"
proof -
  have "parse_rows E prs (row # after) [] = parse_rows E prs after []"
    using assms by (auto simp del: ascii_simps)
  then show ?thesis
    using parse_rows_split [of E prs before "row # after"] parse_rows_split [of E prs before after]
    by simp
qed

lemma no_phrase_no_rows:
  "(\<forall>row \<in> set rows. \<not> contains OBSTACULO_FIJO (upper E (get_text row))) \<Longrightarrow>
   parse_rows E prs rows [] = []"
  by (induction rows) (simp_all del: ascii_simps)

lemma parse_rows_length:
  "length (parse_rows E (parse_row E) rows []) =
   length (filter (\<lambda>row. contains OBSTACULO_FIJO (upper E (get_text row))
                         \<and> 6 \<le> length (find_all (ascii ''td'') row)) rows)"
proof (induction rows)
  case Nil
  show ?case by simp
next
  case (Cons row rows)
  show ?case
  proof (cases "contains OBSTACULO_FIJO (upper E (get_text row))
                \<and> 6 \<le> length (find_all (ascii ''td'') row)")
    case True
    then obtain inc where "parse_row E (find_all (ascii ''td'') row) (extract_id E row) = Inr inc"
      using parse_row_returns by blast
    with True have "parse_rows E (parse_row E) (row # rows) [] = inc # parse_rows E (parse_row E) rows []"
      by (intro kept_step) simp_all
    with True Cons show ?thesis by (simp del: ascii_simps)
  next
    case False
    then have "parse_rows E (parse_row E) (row # rows) [] = parse_rows E (parse_row E) rows []"
      by (auto simp del: ascii_simps)
    with False Cons show ?thesis by (auto simp del: ascii_simps)
  qed
qed


lemma ejemplo_h: "6 \<le> length (find_all (ascii ''td'') fila_ejemplo)"
  using cells_ejemplo by simp


text \<open>
  C1, as the spec states it, fails: in the row \<open>fila_accidente\<close> the category phrase
  stands in the third cell, so the row is kept; its description contains the accident
  marker, and the record is a plain obstacle.
\<close>

theorem accident_without_phrase:
  "map descripcion (parse_soup latin1 (Tag (ascii ''table'') [] [fila_accidente]))
     = [ascii ''Accidente en km 12'']
   \<and> contains ACCIDENTE (upper latin1 (ascii ''Accidente en km 12''))
   \<and> map tipo (parse_soup latin1 (Tag (ascii ''table'') [] [fila_accidente]))
     = [OBSTACULO_FIJO]"
  by (simp add: fila_accidente_def scan_defs parse_row_def Let_def split_def)

text \<open>
  C1, amended. \<open>parse_row\<close> on six or more cells returns a record whose description is
  the text of the sixth cell, stripped and with every run of white space made one
  space, and whose category is obstacle-from-accident exactly when the upper-cased
  description contains both the obstacle phrase and the accident marker; otherwise it
  is plain obstacle. The category depends on nothing but the description.
\<close>

theorem tipo_from_description:
  assumes "6 \<le> length cells"
  shows "\<exists>inc. parse_row E cells row_id = Inr inc
     \<and> descripcion inc = sub_spaces E (strip E (get_text (cells ! 5)))
     \<and> (tipo inc = OBSTACULO_FIJO_POR_ACCIDENTE \<longleftrightarrow>
          contains OBSTACULO_FIJO (upper E (descripcion inc))
          \<and> contains ACCIDENTE (upper E (descripcion inc)))
     \<and> (tipo inc \<noteq> OBSTACULO_FIJO_POR_ACCIDENTE \<longrightarrow> tipo inc = OBSTACULO_FIJO)"
proof -
  from parse_row_returns [OF assms] obtain inc where r: "parse_row E cells row_id = Inr inc" ..
  note d = parse_row_descripcion [OF r] and t = parse_row_tipo [OF r]
  have p1: "tipo inc = OBSTACULO_FIJO_POR_ACCIDENTE \<longleftrightarrow>
          contains OBSTACULO_FIJO (upper E (descripcion inc))
          \<and> contains ACCIDENTE (upper E (descripcion inc))"
    unfolding t using tipos_differ by (simp del: ascii_simps)
  have p2: "tipo inc \<noteq> OBSTACULO_FIJO_POR_ACCIDENTE \<longrightarrow> tipo inc = OBSTACULO_FIJO"
    unfolding t by (simp del: ascii_simps)
  from r d p1 p2 show ?thesis by (intro exI [of _ inc] conjI)
qed

theorem tipo_from_description_witness:
  "6 \<le> length (find_all (ascii ''td'') fila_ejemplo)
   \<and> upper latin1 (sub_spaces latin1 (strip latin1
          (get_text (find_all (ascii ''td'') fila_ejemplo ! 5))))
       = ascii ''OBST'' @ [193] @ ascii ''CULO FIJO POR ACCIDENTE KM 23,5 SENTIDO NORTE.''
   \<and> (\<exists>inc. parse_row latin1 (find_all (ascii ''td'') fila_ejemplo) [] = Inr inc
        \<and> tipo inc = OBSTACULO_FIJO_POR_ACCIDENTE)"
proof -
  have d: "upper latin1 (sub_spaces latin1 (strip latin1
             (get_text (find_all (ascii ''td'') fila_ejemplo ! 5))))
           = ascii ''OBST'' @ [193] @ ascii ''CULO FIJO POR ACCIDENTE KM 23,5 SENTIDO NORTE.''"
    by (simp add: fila_ejemplo_def scan_defs)
  from tipo_from_description [OF ejemplo_h, of latin1 "[]"] obtain inc where
    r: "parse_row latin1 (find_all (ascii ''td'') fila_ejemplo) [] = Inr inc"
    and e: "descripcion inc = sub_spaces latin1 (strip latin1
             (get_text (find_all (ascii ''td'') fila_ejemplo ! 5)))"
    and t: "tipo inc = OBSTACULO_FIJO_POR_ACCIDENTE \<longleftrightarrow>
             contains OBSTACULO_FIJO (upper latin1 (descripcion inc))
             \<and> contains ACCIDENTE (upper latin1 (descripcion inc))"
    by (elim exE conjE)
  have "contains OBSTACULO_FIJO (upper latin1 (descripcion inc))
        \<and> contains ACCIDENTE (upper latin1 (descripcion inc))"
    unfolding e d by (simp add: OBSTACULO_FIJO_def ACCIDENTE_def)
  with t have "tipo inc = OBSTACULO_FIJO_POR_ACCIDENTE" by (rule iffD2)
  with r have "\<exists>inc. parse_row latin1 (find_all (ascii ''td'') fila_ejemplo) [] = Inr inc
        \<and> tipo inc = OBSTACULO_FIJO_POR_ACCIDENTE"
    by (intro exI [of _ inc] conjI)
  with ejemplo_h d show ?thesis by (intro conjI)
qed

text \<open>
  C3. A row whose text contains the category phrase and which has six or more cells
  puts exactly one record into the output, between the records of the rows before it
  and those of the rows after it, and in that record \<open>activa\<close> is true exactly when
  \<open>fecha_fin\<close> is \<open>None\<close>.
\<close>

theorem kept_row_one_record:
  assumes "contains OBSTACULO_FIJO (upper E (get_text row))"
    and "6 \<le> length (find_all (ascii ''td'') row)"
  shows "\<exists>inc. parse_rows E (parse_row E) (before @ row # after) []
              = parse_rows E (parse_row E) before [] @ inc # parse_rows E (parse_row E) after []
     \<and> activa inc = (fecha_fin inc = None)"
proof -
  from parse_row_returns [OF assms(2)] obtain inc where
    r: "parse_row E (find_all (ascii ''td'') row) (extract_id E row) = Inr inc" ..
  note a = parse_row_activa [OF r]
  have "parse_rows E (parse_row E) (before @ row # after) []
          = parse_rows E (parse_row E) before [] @ parse_rows E (parse_row E) (row # after) []"
    by (rule parse_rows_split)
  also have "parse_rows E (parse_row E) (row # after) [] = inc # parse_rows E (parse_row E) after []"
    using assms r by (rule kept_step)
  finally have "parse_rows E (parse_row E) (before @ row # after) []
              = parse_rows E (parse_row E) before [] @ inc # parse_rows E (parse_row E) after []" .
  with a show ?thesis by (intro exI [of _ inc] conjI)
qed

theorem kept_row_one_record_witness:
  "contains OBSTACULO_FIJO (upper latin1 (get_text fila_ejemplo))
   \<and> 6 \<le> length (find_all (ascii ''td'') fila_ejemplo)
   \<and> (\<exists>inc. parse_rows latin1 (parse_row latin1) ([fila_ajena] @ fila_ejemplo # [fila_corta]) []
              = parse_rows latin1 (parse_row latin1) [fila_ajena] [] @ inc
                  # parse_rows latin1 (parse_row latin1) [fila_corta] []
        \<and> activa inc = (fecha_fin inc = None))"
  using frase_ejemplo ejemplo_h
    kept_row_one_record [OF frase_ejemplo ejemplo_h, of "[fila_ajena]" "[fila_corta]"]
  by (intro conjI)

text \<open>
  C5, as the spec states it, fails when "no match" is the date pattern finding nothing:
  in the row \<open>fila_sin_fecha\<close> the end cell holds the hour "12:00" and no date, and the
  record has \<open>hora_fin\<close> set while \<open>fecha_fin\<close> is \<open>None\<close> and \<open>activa\<close> is true.
\<close>

theorem hour_without_date:
  "re_search (pat_fecha latin1) (get_text (find_all (ascii ''td'') fila_sin_fecha ! 1)) = None
   \<and> map hora_fin (parse_soup latin1 (Tag (ascii ''table'') [] [fila_sin_fecha]))
       = [Some (ascii ''12:00'')]
   \<and> map fecha_fin (parse_soup latin1 (Tag (ascii ''table'') [] [fila_sin_fecha])) = [None]
   \<and> map activa (parse_soup latin1 (Tag (ascii ''table'') [] [fila_sin_fecha])) = [True]"
  by (simp add: fila_sin_fecha_def scan_defs parse_row_def Let_def split_def parse_fin_def
        find_tag_def pat_fecha_def lit_def latin1_isdigit_def)


text \<open>
  C5, amended. In the record of a row, \<open>hora_fin\<close> or \<open>fecha_fin\<close> is set only if the
  end cell has a \<open>span\<close> whose stripped text is not empty. When the first \<open>span\<close> of the
  end cell is missing or blank, both are \<open>None\<close> and \<open>activa\<close> is true. When it has
  text, \<open>hora_fin\<close> is that text and \<open>fecha_fin\<close> is the first date-shaped piece of the
  cell's text, \<open>None\<close> when there is none. Neither field is ever the empty string, and
  \<open>activa\<close> is true whenever \<open>fecha_fin\<close> is \<open>None\<close>.
\<close>

theorem end_fields_need_span_text:
  assumes "6 \<le> length cells"
  shows "\<exists>inc. parse_row E cells row_id = Inr inc
     \<and> (hora_fin inc \<noteq> None \<or> fecha_fin inc \<noteq> None \<longrightarrow>
          (\<exists>sp. find_tag (ascii ''span'') (cells ! 1) = Some sp \<and> strip E (get_text sp) \<noteq> []))
     \<and> ((\<forall>sp. find_tag (ascii ''span'') (cells ! 1) = Some sp \<longrightarrow> strip E (get_text sp) = []) \<longrightarrow>
          hora_fin inc = None \<and> fecha_fin inc = None \<and> activa inc)
     \<and> (\<forall>sp. find_tag (ascii ''span'') (cells ! 1) = Some sp \<and> strip E (get_text sp) \<noteq> [] \<longrightarrow>
          hora_fin inc = Some (strip E (get_text sp))
          \<and> fecha_fin inc = map_option fst (re_search (pat_fecha E) (get_text (cells ! 1))))
     \<and> hora_fin inc \<noteq> Some [] \<and> fecha_fin inc \<noteq> Some []
     \<and> (fecha_fin inc = None \<longrightarrow> activa inc)"
proof -
  from parse_row_returns [OF assms] obtain inc where r: "parse_row E cells row_id = Inr inc" ..
  note a = parse_row_activa [OF r]
  from parse_row_fin [OF r] have h: "hora_fin inc = fst (parse_fin E (cells ! 1))"
    and f: "fecha_fin inc = snd (parse_fin E (cells ! 1))" by (rule conjunct1, rule conjunct2)
  note c = parse_fin_cases [of E "cells ! 1", folded h f]
  from c have p1: "hora_fin inc \<noteq> None \<or> fecha_fin inc \<noteq> None \<longrightarrow>
          (\<exists>sp. find_tag (ascii ''span'') (cells ! 1) = Some sp \<and> strip E (get_text sp) \<noteq> [])"
    by (rule conjunct1)
  from c have p2: "(\<forall>sp. find_tag (ascii ''span'') (cells ! 1) = Some sp \<longrightarrow> strip E (get_text sp) = []) \<longrightarrow>
          parse_fin E (cells ! 1) = (None, None)"
    by (rule conjunct2 [THEN conjunct1])
  from c have p3: "hora_fin inc \<noteq> Some []" and p3b: "fecha_fin inc \<noteq> Some []"
    by (rule conjunct2 [THEN conjunct2, THEN conjunct1], rule conjunct2 [THEN conjunct2, THEN conjunct2])
  have p4: "(\<forall>sp. find_tag (ascii ''span'') (cells ! 1) = Some sp \<longrightarrow> strip E (get_text sp) = []) \<longrightarrow>
          hora_fin inc = None \<and> fecha_fin inc = None \<and> activa inc"
  proof
    assume "\<forall>sp. find_tag (ascii ''span'') (cells ! 1) = Some sp \<longrightarrow> strip E (get_text sp) = []"
    with p2 have "parse_fin E (cells ! 1) = (None, None)" by (rule mp)
    with h f a show "hora_fin inc = None \<and> fecha_fin inc = None \<and> activa inc" by simp
  qed
  have p5: "fecha_fin inc = None \<longrightarrow> activa inc" using a by simp
  have p6: "\<forall>sp. find_tag (ascii ''span'') (cells ! 1) = Some sp \<and> strip E (get_text sp) \<noteq> [] \<longrightarrow>
          hora_fin inc = Some (strip E (get_text sp))
          \<and> fecha_fin inc = map_option fst (re_search (pat_fecha E) (get_text (cells ! 1)))"
    by (auto simp: h f parse_fin_text simp del: ascii_simps)
  from r p1 p4 p6 p3 p3b p5 show ?thesis by (intro exI [of _ inc] conjI)
qed

theorem end_fields_need_span_text_witness:
  "6 \<le> length (find_all (ascii ''td'') fila_ejemplo)
   \<and> (\<exists>inc. parse_row latin1 (find_all (ascii ''td'') fila_ejemplo) [] = Inr inc
        \<and> hora_fin inc = None \<and> fecha_fin inc = None \<and> activa inc)"
proof -
  have s: "\<forall>sp. find_tag (ascii ''span'') (find_all (ascii ''td'') fila_ejemplo ! 1) = Some sp
              \<longrightarrow> strip latin1 (get_text sp) = []"
    by (simp add: fila_ejemplo_def scan_defs find_tag_def)
  from end_fields_need_span_text [OF ejemplo_h, of latin1 "[]"] obtain inc where
    r: "parse_row latin1 (find_all (ascii ''td'') fila_ejemplo) [] = Inr inc"
    and b: "(\<forall>sp. find_tag (ascii ''span'') (find_all (ascii ''td'') fila_ejemplo ! 1) = Some sp
              \<longrightarrow> strip latin1 (get_text sp) = []) \<longrightarrow>
          hora_fin inc = None \<and> fecha_fin inc = None \<and> activa inc"
    by (elim exE conjE)
  from b s have "hora_fin inc = None \<and> fecha_fin inc = None \<and> activa inc" by (rule mp)
  with r have "\<exists>inc. parse_row latin1 (find_all (ascii ''td'') fila_ejemplo) [] = Inr inc
        \<and> hora_fin inc = None \<and> fecha_fin inc = None \<and> activa inc"
    by (intro exI [of _ inc] conjI) simp_all
  with ejemplo_h show ?thesis by (intro conjI)
qed

text \<open>
  C7, as the spec states it, fails: \<open>parse_incidencias\<close> calls the parser outside the
  \<open>try\<close>, so a document that the parser rejects makes it raise.
\<close>

theorem rejected_document_raises:
  "parse_incidencias latin1 parser_ejemplo (ascii ''<![x]>'') = Inl ParserRejectedMarkup"
  by (simp add: parse_incidencias_def parser_ejemplo_def)

text \<open>
  C7, amended. For every markup document that the parser accepts, \<open>parse_incidencias\<close>
  returns a list and does not raise: the list has one record for every row that
  contains the category phrase and has six or more cells. When the parser raises,
  \<open>parse_incidencias\<close> raises the same. In the loop over the rows, a row with fewer
  than six cells leaves the output as if the row were not there, and so does a row on
  which the body of the \<open>try\<close> raises, the rows before and after it being extracted as
  without it; rows none of which contains the category phrase give the empty list.
\<close>

theorem rows_skipped_not_raised:
  "(parser html = Inr soup \<longrightarrow>
      parse_incidencias E parser html = Inr (parse_soup E soup)
      \<and> length (parse_soup E soup) =
          length (filter (\<lambda>r. contains OBSTACULO_FIJO (upper E (get_text r))
                              \<and> 6 \<le> length (find_all (ascii ''td'') r))
                    (find_all (ascii ''tr'') soup)))
   \<and> (parser html = Inl e \<longrightarrow> parse_incidencias E parser html = Inl e)
   \<and> (length (find_all (ascii ''td'') row) < 6 \<longrightarrow>
      parse_rows E prs (before @ row # after) [] = parse_rows E prs (before @ after) [])
   \<and> ((\<exists>e. prs (find_all (ascii ''td'') row) (extract_id E row) = Inl e) \<longrightarrow>
      parse_rows E prs (before @ row # after) [] = parse_rows E prs (before @ after) [])
   \<and> ((\<forall>r \<in> set rows. \<not> contains OBSTACULO_FIJO (upper E (get_text r))) \<longrightarrow>
      parse_rows E prs rows [] = [])"
proof (intro conjI impI)
  assume "parser html = Inr soup"
  then show "parse_incidencias E parser html = Inr (parse_soup E soup)"
    by (simp add: parse_incidencias_def)
next
  show "length (parse_soup E soup) =
      length (filter (\<lambda>r. contains OBSTACULO_FIJO (upper E (get_text r))
                          \<and> 6 \<le> length (find_all (ascii ''td'') r))
                (find_all (ascii ''tr'') soup))"
    unfolding parse_soup_def by (rule parse_rows_length)
next
  assume "parser html = Inl e"
  then show "parse_incidencias E parser html = Inl e"
    by (simp add: parse_incidencias_def)
next
  assume "length (find_all (ascii ''td'') row) < 6"
  then show "parse_rows E prs (before @ row # after) [] = parse_rows E prs (before @ after) []"
    by (intro skipped_step) simp
next
  assume "\<exists>e. prs (find_all (ascii ''td'') row) (extract_id E row) = Inl e"
  then show "parse_rows E prs (before @ row # after) [] = parse_rows E prs (before @ after) []"
    by (intro skipped_step) simp
next
  assume "\<forall>r \<in> set rows. \<not> contains OBSTACULO_FIJO (upper E (get_text r))"
  then show "parse_rows E prs rows [] = []" by (rule no_phrase_no_rows)
qed

theorem rows_skipped_not_raised_witness:
  "parser_ejemplo [] = Inr (Tag (ascii ''[document]'') [] [])
   \<and> parse_incidencias latin1 parser_ejemplo [] = Inr []
   \<and> length (find_all (ascii ''td'') fila_corta) < 6
   \<and> parse_rows latin1 (parse_row latin1) ([fila_ejemplo] @ fila_corta # [fila_ejemplo]) []
       = parse_rows latin1 (parse_row latin1) ([fila_ejemplo] @ [fila_ejemplo]) []
   \<and> parser_sin_id latin1 (find_all (ascii ''td'') fila_accidente) (extract_id latin1 fila_accidente)
       = Inl IndexError
   \<and> parse_rows latin1 (parser_sin_id latin1) ([fila_ejemplo] @ fila_accidente # [fila_ejemplo]) []
       = parse_rows latin1 (parser_sin_id latin1) ([fila_ejemplo] @ [fila_ejemplo]) []
   \<and> length (parse_rows latin1 (parser_sin_id latin1) ([fila_ejemplo] @ [fila_ejemplo]) []) = 2
   \<and> \<not> contains OBSTACULO_FIJO (upper latin1 (get_text fila_ajena))
   \<and> parse_rows latin1 (parse_row latin1) [fila_ajena] [] = []"
proof -
  have a: "parser_ejemplo [] = Inr (Tag (ascii ''[document]'') [] [])"
    by (simp add: parser_ejemplo_def)
  have r: "parser_ejemplo (ascii ''<![x]>'') = Inl ParserRejectedMarkup"
    by (simp add: parser_ejemplo_def)
  have d: "parse_soup latin1 (Tag (ascii ''[document]'') [] []) = []"
    by (simp add: parse_soup_def find_all_def find_all_prev_def)
  have e: "parser_sin_id latin1 (find_all (ascii ''td'') fila_accidente) (extract_id latin1 fila_accidente)
       = Inl IndexError"
    by (simp add: parser_sin_id_def accidente_id)
  have id_given: "ascii ''1234'' \<noteq> []" by simp
  have two: "length (parse_rows latin1 (parser_sin_id latin1) ([fila_ejemplo] @ [fila_ejemplo]) []) = 2"
    using frase_ejemplo cells_ejemplo id_given
    by (simp add: parser_sin_id_def ejemplo_id parse_row_def Let_def split_def del: ascii_simps)
  from a r d corta_cells e two ajena_frase
    rows_skipped_not_raised [of parser_ejemplo "[]" "Tag (ascii ''[document]'') [] []" latin1
      ParserRejectedMarkup fila_corta "parse_row latin1" "[fila_ejemplo]" "[fila_ejemplo]"
      "[fila_ajena]"]
    rows_skipped_not_raised [of parser_ejemplo "ascii ''<![x]>''" "Tag (ascii ''[document]'') [] []"
      latin1 ParserRejectedMarkup fila_accidente "parser_sin_id latin1" "[fila_ejemplo]"
      "[fila_ejemplo]" "[fila_ajena]"]
  show ?thesis by simp
qed

text \<open>
  C9. For a province whose upper-cased, stripped name is no key of
  \<open>PROVINCIAS_COMUNIDADES\<close>, \<open>get_comunidad\<close> returns "DESCONOCIDA"; and for no province
  at all does it return the empty string.
\<close>

theorem unknown_province:
  "(strip E (upper E prov) \<notin> fst ` set PROVINCIAS_COMUNIDADES \<longrightarrow>
      get_comunidad E prov = DESCONOCIDA)
   \<and> get_comunidad E prov \<noteq> []"
proof (intro conjI impI)
  assume "strip E (upper E prov) \<notin> fst ` set PROVINCIAS_COMUNIDADES"
  then have "map_of PROVINCIAS_COMUNIDADES (strip E (upper E prov)) = None"
    by (simp add: map_of_eq_None_iff)
  then show "get_comunidad E prov = DESCONOCIDA"
    by (simp add: get_comunidad_def)
next
  show "get_comunidad E prov \<noteq> []"
  proof (cases "map_of PROVINCIAS_COMUNIDADES (strip E (upper E prov))")
    case None
    then show ?thesis by (simp add: get_comunidad_def DESCONOCIDA_def)
  next
    case (Some c)
    then have "(strip E (upper E prov), c) \<in> set PROVINCIAS_COMUNIDADES"
      by (rule map_of_SomeD)
    then have "c \<noteq> []" by (rule comunidades_nonempty)
    with Some show ?thesis by (simp add: get_comunidad_def)
  qed
qed

theorem unknown_province_witness:
  "strip latin1 (upper latin1 (ascii ''Narnia'')) \<notin> fst ` set PROVINCIAS_COMUNIDADES
   \<and> get_comunidad latin1 (ascii ''Narnia'') = ascii ''DESCONOCIDA''"
  using unknown_province [of latin1 "ascii ''Narnia''"]
  by (simp add: scan_defs PROVINCIAS_COMUNIDADES_def DESCONOCIDA_def)

end
